theory Spec2Isabelle
  imports Main
begin

section \<open>Values, errors and the world the client runs in\<close>

text \<open>
  The module under study is \<^verbatim>\<open>PyBullet/base.py\<close>: the class \<^verbatim>\<open>Client\<close>, its
  constructor, its thin request methods and \<^verbatim>\<open>upload_file\<close>.

  Python values that flow through the client (settings, keyword arguments, parsed
  responses). A dictionary with string keys is a map; JSON objects have exactly such
  keys. Numbers are integers here: no method of the client computes with them.
\<close>

datatype pyval =
    PNone
  | PBool bool
  | PInt int
  | PStr string
  | PList "pyval list"
  | PTuple "pyval list"
  | PDict "string \<Rightarrow> pyval option"

type_synonym dict = "string \<Rightarrow> pyval option"

text \<open>
  Exceptions. \<open>Exception msg\<close> is the \<^verbatim>\<open>raise Exception(msg)\<close> of the client
  itself; \<open>KeyError\<close>, \<open>TypeError\<close> and \<open>AttributeError\<close> come from subscripting and
  attribute access; \<open>IOError\<close> from \<^verbatim>\<open>open\<close>; \<open>Propagated x\<close> is an exception
  named \<open>x\<close> raised inside a collaborator (\<^verbatim>\<open>json.load\<close>, an authenticator's
  constructor, \<^verbatim>\<open>send_request\<close>) and passing through the client unchanged.
\<close>

datatype error =
    Exception string
  | KeyError string
  | TypeError
  | AttributeError
  | IOError
  | Propagated string

type_synonym handle = nat

text \<open>A file object: its \<^verbatim>\<open>name\<close> attribute (if it has one), its read position, and
  whether it has been closed.\<close>

record stream =
  stream_name :: "string option"
  stream_pos :: nat
  stream_closed :: bool

text \<open>
  The arguments of one \<^verbatim>\<open>send_request(url, method, ...)\<close> call as the call site
  writes them: a keyword argument that the call site leaves out is \<open>None\<close>, so the
  callee's default applies. \<open>files\<close> lists the entries of the dictionary passed as
  \<^verbatim>\<open>files\<close>: field name and file object.
\<close>

record request =
  url :: pyval
  http_method :: string
  headers :: "dict option"
  params :: "dict option"
  data :: "pyval option"
  files :: "(string \<times> handle) list option"
  skip_auth :: "bool option"

text \<open>
  The world: \<open>net\<close> is everything behind the authenticator (the remote service, the
  authenticator's own token state); \<open>sent\<close> records, in order, every
  \<^verbatim>\<open>send_request\<close> call the client has issued; \<open>streams\<close> is the heap of file
  objects and \<open>next_handle\<close> the next unused reference.
\<close>

record 'n world =
  net :: 'n
  sent :: "request list"
  streams :: "handle \<Rightarrow> stream option"
  next_handle :: handle

text \<open>
  What the module imports and does not define, taken as parameters:
  \<^verbatim>\<open>os.path.expanduser('~/.pybulletrc')\<close>, \<^verbatim>\<open>os.path.exists\<close>, whether
  \<^verbatim>\<open>open\<close> succeeds on a path, what \<^verbatim>\<open>json.load\<close> yields on the file at a path
  (an exception's name, or the JSON object it holds; settings files are JSON objects),
  \<^verbatim>\<open>json.dumps\<close>, \<^verbatim>\<open>mimetypes.guess_type\<close>, and package \<^verbatim>\<open>pybullet.auth\<close>: the two
  authenticator constructors and \<^verbatim>\<open>send_request\<close>. The last one sees the network state
  and the file objects it is handed; it answers with an exception's name or a parsed
  response.
\<close>

record ('n, 'a) env =
  GLOBAL_SETTINGS_FILE :: string
  os_path_exists :: "string \<Rightarrow> bool"
  openable :: "string \<Rightarrow> bool"
  json_load :: "string \<Rightarrow> string + dict"
  json_dumps :: "dict \<Rightarrow> string"
  guess_type :: "string \<Rightarrow> string option \<times> string option"
  BasicAuthenticator :: "pyval \<Rightarrow> 'n \<Rightarrow> (string + 'a) \<times> 'n"
  OAuthAuthenticator :: "pyval \<Rightarrow> 'n \<Rightarrow> (string + 'a) \<times> 'n"
  auth_send_request ::
    "'a \<Rightarrow> request \<Rightarrow> 'n \<Rightarrow> (handle \<Rightarrow> stream option)
      \<Rightarrow> (string + pyval) \<times> 'n \<times> (handle \<Rightarrow> stream option)"

record 'a client =
  settings :: dict
  auth :: 'a

section \<open>Python primitives\<close>

text \<open>\<^verbatim>\<open>d[k]\<close> on a dictionary, and \<^verbatim>\<open>v[k]\<close> with a string key on any value.\<close>

definition dict_getitem :: "dict \<Rightarrow> string \<Rightarrow> error + pyval" where
  "dict_getitem d k = (case d k of None \<Rightarrow> Inl (KeyError k) | Some v \<Rightarrow> Inr v)"

definition subscript :: "pyval \<Rightarrow> string \<Rightarrow> error + pyval" where
  "subscript v k = (case v of PDict d \<Rightarrow> dict_getitem d k | _ \<Rightarrow> Inl TypeError)"

text \<open>\<^verbatim>\<open>open(path, mode)\<close>: a fresh file object named after the path, or \<open>IOError\<close>.\<close>

definition py_open :: "('n, 'a) env \<Rightarrow> string \<Rightarrow> 'n world \<Rightarrow> (error + handle) \<times> 'n world" where
  "py_open E path w =
     (if openable E path
      then (Inr (next_handle w),
            w\<lparr>streams := (streams w)(next_handle w \<mapsto>
                   \<lparr>stream_name = Some path, stream_pos = 0, stream_closed = False\<rparr>),
              next_handle := Suc (next_handle w)\<rparr>)
      else (Inl IOError, w))"

definition py_close :: "handle \<Rightarrow> 'n world \<Rightarrow> 'n world" where
  "py_close h w =
     (case streams w h of
        None \<Rightarrow> w
      | Some s \<Rightarrow> w\<lparr>streams := (streams w)(h \<mapsto> s\<lparr>stream_closed := True\<rparr>)\<rparr>)"

text \<open>Truth value of an optional string: \<^verbatim>\<open>None\<close> and \<^verbatim>\<open>''\<close> are false.\<close>

fun nonempty :: "string option \<Rightarrow> string option" where
  "nonempty None = None"
| "nonempty (Some s) = (if s = [] then None else Some s)"

section \<open>Construction: \<^verbatim>\<open>Client.__init__\<close> and \<^verbatim>\<open>Client._load_config\<close>\<close>

text \<open>The \<^verbatim>\<open>settings\<close> argument: absent, a path to a JSON file, or a dictionary.\<close>

datatype settings_arg = NoSettings | SettingsPath string | SettingsDict dict

fun truthy :: "settings_arg \<Rightarrow> bool" where
  "truthy NoSettings = False"
| "truthy (SettingsPath p) = (p \<noteq> [])"
| "truthy (SettingsDict d) = (d \<noteq> Map.empty)"

text \<open>
  \<^verbatim>\<open>_load_config(settings = None)\<close>: the path is \<^verbatim>\<open>settings or GLOBAL_SETTINGS_FILE\<close>;
  the \<^verbatim>\<open>with\<close> block closes the file whether \<^verbatim>\<open>json.load\<close> returns or raises.
\<close>

definition load_config ::
  "('n, 'a) env \<Rightarrow> string option \<Rightarrow> 'n world \<Rightarrow> (error + dict) \<times> 'n world" where
  "load_config E path_arg w =
     (let path = (case nonempty path_arg of None \<Rightarrow> GLOBAL_SETTINGS_FILE E | Some p \<Rightarrow> p) in
      case py_open E path w of
        (Inl e, w1) \<Rightarrow> (Inl e, w1)
      | (Inr fh, w1) \<Rightarrow>
          (case json_load E path of
             Inl x \<Rightarrow> (Inl (Propagated x), py_close fh w1)
           | Inr d \<Rightarrow> (Inr d, py_close fh w1)))"

text \<open>Lines 33 to 36: the base settings, from the global file when it exists.\<close>

definition base_settings :: "('n, 'a) env \<Rightarrow> 'n world \<Rightarrow> (error + dict) \<times> 'n world" where
  "base_settings E w =
     (if os_path_exists E (GLOBAL_SETTINGS_FILE E) then load_config E None w
      else (Inr Map.empty, w))"

text \<open>Lines 39 and 40: a string argument is replaced by the file it names.\<close>

fun override_settings ::
  "('n, 'a) env \<Rightarrow> settings_arg \<Rightarrow> 'n world \<Rightarrow> (error + dict) \<times> 'n world" where
  "override_settings E NoSettings w = (Inr Map.empty, w)"
| "override_settings E (SettingsPath p) w = load_config E (Some p) w"
| "override_settings E (SettingsDict d) w = (Inr d, w)"

text \<open>
  Lines 30 to 42 of \<^verbatim>\<open>__init__\<close>: the value of \<^verbatim>\<open>self.settings\<close> after the merge.
  \<^verbatim>\<open>self.settings.update(settings)\<close> is \<open>base ++ override\<close>.
\<close>

definition init_settings ::
  "('n, 'a) env \<Rightarrow> settings_arg \<Rightarrow> 'n world \<Rightarrow> (error + dict) \<times> 'n world" where
  "init_settings E settings_in w =
     (if \<not> os_path_exists E (GLOBAL_SETTINGS_FILE E) \<and> \<not> truthy settings_in
      then (Inl (Exception ''No settings given''), w)
      else
        (case base_settings E w of
           (Inl e, w1) \<Rightarrow> (Inl e, w1)
         | (Inr base, w1) \<Rightarrow>
             if truthy settings_in
             then (case override_settings E settings_in w1 of
                     (Inl e, w2) \<Rightarrow> (Inl e, w2)
                   | (Inr override, w2) \<Rightarrow> (Inr (base ++ override), w2))
             else (Inr base, w1)))"

text \<open>Running an authenticator's constructor and storing the result in the client.\<close>

definition construct ::
  "('n \<Rightarrow> (string + 'a) \<times> 'n) \<Rightarrow> dict \<Rightarrow> 'n world \<Rightarrow> (error + 'a client) \<times> 'n world" where
  "construct ctor merged w =
     (case ctor (net w) of
        (Inl x, n) \<Rightarrow> (Inl (Propagated x), w\<lparr>net := n\<rparr>)
      | (Inr a, n) \<Rightarrow> (Inr \<lparr>settings = merged, auth = a\<rparr>, w\<lparr>net := n\<rparr>))"

text \<open>
  Lines 44 to 50 of \<^verbatim>\<open>__init__\<close>. The source reads \<^verbatim>\<open>auth_settings['type']\<close> once per
  comparison; both reads give the same value.
\<close>

definition init_auth ::
  "('n, 'a) env \<Rightarrow> dict \<Rightarrow> 'n world \<Rightarrow> (error + 'a client) \<times> 'n world" where
  "init_auth E merged w =
     (case dict_getitem merged ''auth'' of
        Inl e \<Rightarrow> (Inl e, w)
      | Inr auth_settings \<Rightarrow>
          (case subscript auth_settings ''type'' of
             Inl e \<Rightarrow> (Inl e, w)
           | Inr t \<Rightarrow>
               if t = PStr ''basic'' then construct (BasicAuthenticator E auth_settings) merged w
               else if t = PStr ''oauth'' then construct (OAuthAuthenticator E auth_settings) merged w
               else (Inl (Exception ''Invalid authentication scheme given. Must be basic or oauth''), w)))"

definition init ::
  "('n, 'a) env \<Rightarrow> settings_arg \<Rightarrow> 'n world \<Rightarrow> (error + 'a client) \<times> 'n world" where
  "init E settings_in w =
     (case init_settings E settings_in w of
        (Inl e, w1) \<Rightarrow> (Inl e, w1)
      | (Inr merged, w1) \<Rightarrow> init_auth E merged w1)"

section \<open>Requests\<close>

definition BASE_URL :: string where
  "BASE_URL = ''https://api.pushbullet.com/v2''"

definition CONTACTS_URL :: string where
  "CONTACTS_URL = BASE_URL @ ''/contacts''"

definition DEVICE_URL :: string where
  "DEVICE_URL = BASE_URL @ ''/devices''"

definition ME_URL :: string where
  "ME_URL = BASE_URL @ ''/users/me''"

definition PUSH_URL :: string where
  "PUSH_URL = BASE_URL @ ''/pushes''"

definition UPLOAD_URL :: string where
  "UPLOAD_URL = BASE_URL @ ''/upload-request''"

text \<open>A call \<^verbatim>\<open>send_request(url, method)\<close> with no keyword argument.\<close>

definition call_args :: "pyval \<Rightarrow> string \<Rightarrow> request" where
  "call_args u m =
     \<lparr>url = u, http_method = m, headers = None, params = None, data = None, files = None,
      skip_auth = None\<rparr>"

text \<open>The file objects a call hands to the authenticator.\<close>

definition passed_streams :: "request \<Rightarrow> handle set" where
  "passed_streams req = (case files req of None \<Rightarrow> {} | Some fs \<Rightarrow> set (map snd fs))"

text \<open>
  \<^verbatim>\<open>self.auth.send_request(...)\<close>: the call is recorded in \<open>sent\<close>, the authenticator
  runs on the network state and on the file objects passed to it (it holds no reference
  to any other), and an exception it raises propagates.
\<close>

definition send_request ::
  "('n, 'a) env \<Rightarrow> 'a \<Rightarrow> request \<Rightarrow> 'n world \<Rightarrow> (error + pyval) \<times> 'n world" where
  "send_request E a req w =
     (case auth_send_request E a req (net w) (streams w |` passed_streams req) of
        (r, n, ss) \<Rightarrow>
          ((case r of Inl x \<Rightarrow> Inl (Propagated x) | Inr v \<Rightarrow> Inr v),
           w\<lparr>net := n, sent := sent w @ [req],
             streams := streams w ++ (ss |` passed_streams req)\<rparr>))"

text \<open>The three shapes of a thin method: return the response, return one of its
  fields, or return nothing.\<close>

definition returning_response ::
  "('n, 'a) env \<Rightarrow> 'a client \<Rightarrow> request \<Rightarrow> 'n world \<Rightarrow> (error + pyval) \<times> 'n world" where
  "returning_response E self req w = send_request E (auth self) req w"

definition returning_field ::
  "('n, 'a) env \<Rightarrow> 'a client \<Rightarrow> request \<Rightarrow> string \<Rightarrow> 'n world \<Rightarrow> (error + pyval) \<times> 'n world" where
  "returning_field E self req k w =
     (case send_request E (auth self) req w of
        (Inl e, w1) \<Rightarrow> (Inl e, w1)
      | (Inr resp, w1) \<Rightarrow> (subscript resp k, w1))"

definition returning_nothing ::
  "('n, 'a) env \<Rightarrow> 'a client \<Rightarrow> request \<Rightarrow> 'n world \<Rightarrow> (error + pyval) \<times> 'n world" where
  "returning_nothing E self req w =
     (case send_request E (auth self) req w of
        (Inl e, w1) \<Rightarrow> (Inl e, w1)
      | (Inr resp, w1) \<Rightarrow> (Inr PNone, w1))"

section \<open>The domain methods\<close>

definition devices :: "('n, 'a) env \<Rightarrow> 'a client \<Rightarrow> 'n world \<Rightarrow> (error + pyval) \<times> 'n world" where
  "devices E self w = returning_field E self (call_args (PStr DEVICE_URL) ''GET'') ''devices'' w"

definition create_device ::
  "('n, 'a) env \<Rightarrow> 'a client \<Rightarrow> pyval \<Rightarrow> pyval \<Rightarrow> 'n world \<Rightarrow> (error + pyval) \<times> 'n world" where
  "create_device E self name device_type w =
     returning_response E self
       ((call_args (PStr DEVICE_URL) ''POST'')
          \<lparr>data := Some (PDict [''type'' \<mapsto> device_type, ''nickname'' \<mapsto> name])\<rparr>) w"

text \<open>
  Four methods take \<^verbatim>\<open>**kwargs\<close>. A call \<^verbatim>\<open>m(x, **kwargs)\<close> whose mapping has a
  key that names a positional parameter of \<^verbatim>\<open>m\<close> (\<^verbatim>\<open>self\<close> included) raises
  \<open>TypeError\<close> when the arguments are bound, before the body runs.
\<close>

definition update_device ::
  "('n, 'a) env \<Rightarrow> 'a client \<Rightarrow> string \<Rightarrow> dict \<Rightarrow> 'n world \<Rightarrow> (error + pyval) \<times> 'n world" where
  "update_device E self device_iden kwargs w =
     (if kwargs ''self'' = None \<and> kwargs ''device_iden'' = None
      then returning_response E self
             ((call_args (PStr (DEVICE_URL @ ''/'' @ device_iden)) ''POST'')
                \<lparr>data := Some (PDict kwargs)\<rparr>) w
      else (Inl TypeError, w))"

definition delete_device ::
  "('n, 'a) env \<Rightarrow> 'a client \<Rightarrow> string \<Rightarrow> 'n world \<Rightarrow> (error + pyval) \<times> 'n world" where
  "delete_device E self device_iden w =
     returning_nothing E self (call_args (PStr (DEVICE_URL @ ''/'' @ device_iden)) ''DELETE'') w"

text \<open>\<^verbatim>\<open>push\<close>: line 130 is \<^verbatim>\<open>kwargs['type'] = push_type\<close>, line 132 one POST with
  \<^verbatim>\<open>data = kwargs\<close>.\<close>

definition push ::
  "('n, 'a) env \<Rightarrow> 'a client \<Rightarrow> pyval \<Rightarrow> dict \<Rightarrow> 'n world \<Rightarrow> (error + pyval) \<times> 'n world" where
  "push E self push_type kwargs w =
     (if kwargs ''self'' = None \<and> kwargs ''push_type'' = None
      then returning_response E self
             ((call_args (PStr PUSH_URL) ''POST'')
                \<lparr>data := Some (PDict (kwargs(''type'' \<mapsto> push_type)))\<rparr>) w
      else (Inl TypeError, w))"

definition push_history ::
  "('n, 'a) env \<Rightarrow> 'a client \<Rightarrow> pyval \<Rightarrow> 'n world \<Rightarrow> (error + pyval) \<times> 'n world" where
  "push_history E self modified_timestamp w =
     returning_field E self
       ((call_args (PStr PUSH_URL) ''GET'')
          \<lparr>params := Some [''modified_after'' \<mapsto> modified_timestamp]\<rparr>) ''pushes'' w"

definition dismiss_push ::
  "('n, 'a) env \<Rightarrow> 'a client \<Rightarrow> string \<Rightarrow> 'n world \<Rightarrow> (error + pyval) \<times> 'n world" where
  "dismiss_push E self push_iden w =
     returning_response E self
       ((call_args (PStr (PUSH_URL @ ''/'' @ push_iden)) ''POST'')
          \<lparr>data := Some (PDict [''dismissed'' \<mapsto> PStr ''true''])\<rparr>) w"

definition delete_push ::
  "('n, 'a) env \<Rightarrow> 'a client \<Rightarrow> string \<Rightarrow> 'n world \<Rightarrow> (error + pyval) \<times> 'n world" where
  "delete_push E self push_iden w =
     returning_nothing E self (call_args (PStr (PUSH_URL @ ''/'' @ push_iden)) ''DELETE'') w"

definition contacts :: "('n, 'a) env \<Rightarrow> 'a client \<Rightarrow> 'n world \<Rightarrow> (error + pyval) \<times> 'n world" where
  "contacts E self w = returning_response E self (call_args (PStr CONTACTS_URL) ''GET'') w"

definition create_contact ::
  "('n, 'a) env \<Rightarrow> 'a client \<Rightarrow> pyval \<Rightarrow> pyval \<Rightarrow> 'n world \<Rightarrow> (error + pyval) \<times> 'n world" where
  "create_contact E self name email w =
     returning_response E self
       ((call_args (PStr CONTACTS_URL) ''POST'')
          \<lparr>data := Some (PDict [''name'' \<mapsto> name, ''email'' \<mapsto> email])\<rparr>) w"

definition update_contact ::
  "('n, 'a) env \<Rightarrow> 'a client \<Rightarrow> string \<Rightarrow> dict \<Rightarrow> 'n world \<Rightarrow> (error + pyval) \<times> 'n world" where
  "update_contact E self contact_iden kwargs w =
     (if kwargs ''self'' = None \<and> kwargs ''contact_iden'' = None
      then returning_response E self
             ((call_args (PStr (CONTACTS_URL @ ''/'' @ contact_iden)) ''POST'')
                \<lparr>data := Some (PDict kwargs)\<rparr>) w
      else (Inl TypeError, w))"

definition delete_contact ::
  "('n, 'a) env \<Rightarrow> 'a client \<Rightarrow> string \<Rightarrow> 'n world \<Rightarrow> (error + pyval) \<times> 'n world" where
  "delete_contact E self contact_iden w =
     returning_nothing E self
       (call_args (PStr (CONTACTS_URL @ ''/'' @ contact_iden)) ''DELETE'') w"

definition me :: "('n, 'a) env \<Rightarrow> 'a client \<Rightarrow> 'n world \<Rightarrow> (error + pyval) \<times> 'n world" where
  "me E self w = returning_response E self (call_args (PStr ME_URL) ''GET'') w"

definition update_me ::
  "('n, 'a) env \<Rightarrow> 'a client \<Rightarrow> dict \<Rightarrow> 'n world \<Rightarrow> (error + pyval) \<times> 'n world" where
  "update_me E self kwargs w =
     (if kwargs ''self'' = None
      then returning_response E self
             ((call_args (PStr ME_URL) ''POST'')
                \<lparr>headers := Some [''content-type'' \<mapsto> PStr ''application/json''],
                 data := Some (PStr (json_dumps E kwargs))\<rparr>) w
      else (Inl TypeError, w))"

section \<open>\<^verbatim>\<open>Client.upload_file\<close>\<close>

text \<open>The \<^verbatim>\<open>inputfile\<close> argument: a path string, or an object the caller holds.\<close>

datatype inputfile = Path string | Handle handle

text \<open>Line 236: \<^verbatim>\<open>open(inputfile, 'rb') if isinstance(inputfile, str) else inputfile\<close>.\<close>

fun open_inputfile ::
  "('n, 'a) env \<Rightarrow> inputfile \<Rightarrow> 'n world \<Rightarrow> (error + handle) \<times> 'n world" where
  "open_inputfile E (Path p) w = py_open E p w"
| "open_inputfile E (Handle h) w = (Inr h, w)"

text \<open>\<^verbatim>\<open>file_handle.name\<close>: an object that is no file, or a file object without the
  attribute, raises \<open>AttributeError\<close>.\<close>

definition handle_name :: "'n world \<Rightarrow> handle \<Rightarrow> error + string" where
  "handle_name w h =
     (case streams w h of
        None \<Rightarrow> Inl AttributeError
      | Some s \<Rightarrow> (case stream_name s of None \<Rightarrow> Inl AttributeError | Some n \<Rightarrow> Inr n))"

text \<open>Line 237: \<^verbatim>\<open>filename or file_handle.name\<close>.\<close>

definition resolve_name :: "'n world \<Rightarrow> string option \<Rightarrow> handle \<Rightarrow> error + string" where
  "resolve_name w filename file_handle =
     (case nonempty filename of Some f \<Rightarrow> Inr f | None \<Rightarrow> handle_name w file_handle)"

text \<open>A component of the pair \<^verbatim>\<open>mimetypes.guess_type\<close> returns: a string or \<^verbatim>\<open>None\<close>.\<close>

fun opt_str :: "string option \<Rightarrow> pyval" where
  "opt_str None = PNone"
| "opt_str (Some s) = PStr s"

text \<open>Line 238: \<^verbatim>\<open>file_type or mimetypes.guess_type(name)\<close>.\<close>

definition resolve_mime_type :: "('n, 'a) env \<Rightarrow> string option \<Rightarrow> string \<Rightarrow> pyval" where
  "resolve_mime_type E file_type name =
     (case nonempty file_type of
        Some t \<Rightarrow> PStr t
      | None \<Rightarrow> (case guess_type E name of (t, e) \<Rightarrow> PTuple [opt_str t, opt_str e]))"

text \<open>The call of lines 240 to 244, and the call of lines 246 to 254.\<close>

definition upload_request :: "string \<Rightarrow> pyval \<Rightarrow> request" where
  "upload_request name mime_type =
     (call_args (PStr UPLOAD_URL) ''POST'')
       \<lparr>data := Some (PDict [''file_name'' \<mapsto> PStr name, ''file_type'' \<mapsto> mime_type])\<rparr>"

definition file_submission :: "pyval \<Rightarrow> pyval \<Rightarrow> handle \<Rightarrow> request" where
  "file_submission upload_url form file_handle =
     (call_args upload_url ''POST'')
       \<lparr>data := Some form, files := Some [(''file'', file_handle)], skip_auth := Some True\<rparr>"

definition upload_file ::
  "('n, 'a) env \<Rightarrow> 'a client \<Rightarrow> inputfile \<Rightarrow> string option \<Rightarrow> string option \<Rightarrow> 'n world
    \<Rightarrow> (error + pyval) \<times> 'n world" where
  "upload_file E self inp filename file_type w =
     (case open_inputfile E inp w of
        (Inl e, w1) \<Rightarrow> (Inl e, w1)
      | (Inr file_handle, w1) \<Rightarrow>
          (case resolve_name w1 filename file_handle of
             Inl e \<Rightarrow> (Inl e, w1)
           | Inr name \<Rightarrow>
               (case send_request E (auth self)
                       (upload_request name (resolve_mime_type E file_type name)) w1 of
                  (Inl e, w2) \<Rightarrow> (Inl e, w2)
                | (Inr resp, w2) \<Rightarrow>
                    (case subscript resp ''upload_url'' of
                       Inl e \<Rightarrow> (Inl e, w2)
                     | Inr upload_url \<Rightarrow>
                         (case subscript resp ''data'' of
                            Inl e \<Rightarrow> (Inl e, w2)
                          | Inr form \<Rightarrow>
                              (case send_request E (auth self)
                                      (file_submission upload_url form file_handle) w2 of
                                 (Inl e, w3) \<Rightarrow> (Inl e, w3)
                               | (Inr r, w3) \<Rightarrow> (Inr resp, w3)))))))"

section \<open>The merge as the specification words it\<close>

text \<open>
  The specification's merge: top-level keys of the override replace or add to the base,
  and when both define an \<^verbatim>\<open>auth\<close> mapping, the override's \<^verbatim>\<open>auth\<close> keys replace
  same-named base keys while the other base \<^verbatim>\<open>auth\<close> keys are kept.
\<close>

definition spec_merge :: "dict \<Rightarrow> dict \<Rightarrow> dict" where
  "spec_merge base override =
     (base ++ override)
       (''auth'' :=
          (case base ''auth'' of
             Some (PDict b) \<Rightarrow>
               (case override ''auth'' of
                  Some (PDict ov) \<Rightarrow> Some (PDict (b ++ ov))
                | _ \<Rightarrow> (base ++ override) ''auth'')
           | _ \<Rightarrow> (base ++ override) ''auth''))"

section \<open>A concrete installation\<close>

text \<open>
  A user whose global settings file holds
  \<^verbatim>\<open>{"auth": {"type": "basic", "token": "A"}, "x": 1}\<close>. The network state counts
  exchanges. The service answers an upload request with a ticket and anything else with
  a listing; it reads five bytes of every file it is handed.
\<close>

definition example_base :: dict where
  "example_base =
     [''auth'' \<mapsto> PDict [''type'' \<mapsto> PStr ''basic'', ''token'' \<mapsto> PStr ''A''],
      ''x'' \<mapsto> PInt 1]"

definition example_override :: dict where
  "example_override = [''auth'' \<mapsto> PDict [''token'' \<mapsto> PStr ''B'']]"

definition example_ticket :: pyval where
  "example_ticket =
     PDict [''upload_url'' \<mapsto> PStr ''https://upload.example/slot'',
            ''data'' \<mapsto> PDict [''key'' \<mapsto> PStr ''k''],
            ''file_name'' \<mapsto> PStr ''a.txt'']"

definition example_listing :: pyval where
  "example_listing = PDict [''devices'' \<mapsto> PList [PStr ''phone''], ''pushes'' \<mapsto> PList []]"

definition example_service ::
  "string \<Rightarrow> request \<Rightarrow> nat \<Rightarrow> (handle \<Rightarrow> stream option)
    \<Rightarrow> (string + pyval) \<times> nat \<times> (handle \<Rightarrow> stream option)" where
  "example_service a req n ss =
     (if url req = PStr UPLOAD_URL then Inr example_ticket else Inr example_listing,
      Suc n,
      (\<lambda>h. map_option (\<lambda>s. s\<lparr>stream_pos := 5\<rparr>) (ss h)))"

definition example_env :: "(nat, string) env" where
  "example_env =
     \<lparr>GLOBAL_SETTINGS_FILE = ''/home/u/.pybulletrc'',
      os_path_exists = (\<lambda>p. p = ''/home/u/.pybulletrc''),
      openable = (\<lambda>p. True),
      json_load = (\<lambda>p. if p = ''/home/u/.pybulletrc'' then Inr example_base
                          else Inl ''ValueError''),
      json_dumps = (\<lambda>d. ''{}''),
      guess_type = (\<lambda>n. (Some ''text/plain'', None)),
      BasicAuthenticator = (\<lambda>a n. (Inr ''basic'', n)),
      OAuthAuthenticator = (\<lambda>a n. (Inr ''oauth'', Suc n)),
      auth_send_request = example_service\<rparr>"

text \<open>The same machine without a global settings file, with a service that rejects
  every request, and with a storage backend that rejects the file.\<close>

definition bare_env :: "(nat, string) env" where
  "bare_env = example_env\<lparr>os_path_exists := (\<lambda>p. False)\<rparr>"

definition rejecting_env :: "(nat, string) env" where
  "rejecting_env =
     example_env\<lparr>auth_send_request := (\<lambda>a req n ss. (Inl ''RequestError'', Suc n, ss))\<rparr>"

definition rejecting_storage_env :: "(nat, string) env" where
  "rejecting_storage_env =
     example_env\<lparr>auth_send_request :=
       (\<lambda>a req n ss. (if url req = PStr UPLOAD_URL then Inr example_ticket
                       else Inl ''RequestError'', Suc n, ss))\<rparr>"

definition example_world :: "nat world" where
  "example_world = \<lparr>net = 0, sent = [], streams = Map.empty, next_handle = 0\<rparr>"

text \<open>The world after the global settings file has been read and closed.\<close>

definition example_loaded :: "nat world" where
  "example_loaded =
     \<lparr>net = 0, sent = [],
      streams = [0 \<mapsto> \<lparr>stream_name = Some ''/home/u/.pybulletrc'', stream_pos = 0,
                          stream_closed = True\<rparr>],
      next_handle = 1\<rparr>"

definition example_client :: "string client" where
  "example_client = \<lparr>settings = example_base, auth = ''basic''\<rparr>"






section \<open>Construction: what the file system and the loads leave behind\<close>

lemma load_config_error:
  "load_config E p w = (Inl e, w') \<Longrightarrow> e = IOError \<or> (\<exists>x. e = Propagated x)"
  by (auto simp: load_config_def py_open_def Let_def split: if_splits sum.splits)


lemma base_settings_error:
  "base_settings E w = (Inl e, w') \<Longrightarrow> e = IOError \<or> (\<exists>x. e = Propagated x)"
  by (auto simp: base_settings_def dest: load_config_error split: if_splits)


lemma override_settings_error:
  "override_settings E s w = (Inl e, w') \<Longrightarrow> e = IOError \<or> (\<exists>x. e = Propagated x)"
  by (cases s) (auto dest: load_config_error)



lemma init_settings_error:
  assumes "init_settings E s w = (Inl e, w')"
    and "os_path_exists E (GLOBAL_SETTINGS_FILE E) \<or> truthy s"
  shows "e = IOError \<or> (\<exists>x. e = Propagated x)"
proof -
  obtain rb w1 where b: "base_settings E w = (rb, w1)" by (cases "base_settings E w")
  obtain ro w2 where o: "override_settings E s w1 = (ro, w2)"
    by (cases "override_settings E s w1")
  from assms b o show ?thesis
    by (auto simp: init_settings_def split: sum.splits if_splits
        dest: base_settings_error override_settings_error)
qed

lemma construct_error:
  "construct c m w = (Inl e, w') \<Longrightarrow> \<exists>x. e = Propagated x"
  by (auto simp: construct_def split: prod.splits sum.splits)

lemma init_auth_error:
  "init_auth E m w = (Inl e, w') \<Longrightarrow> e \<noteq> Exception ''No settings given''"
  by (auto simp: init_auth_def dict_getitem_def subscript_def
      split: sum.splits option.splits pyval.splits if_splits dest: construct_error)

subsection \<open>The concrete installation, evaluated\<close>

lemma example_base_settings:
  "base_settings example_env example_world = (Inr example_base, example_loaded)"
  by (simp add: base_settings_def load_config_def py_open_def py_close_def example_env_def
      example_world_def example_loaded_def)

lemma example_load_config:
  "load_config example_env None example_world = (Inr example_base, example_loaded)"
  by (simp add: load_config_def py_open_def py_close_def example_env_def
      example_world_def example_loaded_def)


lemma example_override_nonempty: "example_override \<noteq> Map.empty"
  by (simp add: example_override_def)



lemma example_global_exists:
  "os_path_exists example_env (GLOBAL_SETTINGS_FILE example_env)"
  by (simp add: example_env_def)

lemma bare_global_missing:
  "\<not> os_path_exists bare_env (GLOBAL_SETTINGS_FILE bare_env)"
  by (simp add: bare_env_def)


lemma example_init_settings_dict:
  "d \<noteq> Map.empty \<Longrightarrow>
   init_settings example_env (SettingsDict d) example_world
     = (Inr (example_base ++ d), example_loaded)"
  by (simp add: init_settings_def example_base_settings)






lemma example_merged_auth:
  "(example_base ++ example_override) ''auth'' = Some (PDict [''token'' \<mapsto> PStr ''B''])"
  by (simp add: example_base_def example_override_def)

section \<open>Settings merge\<close>

text \<open>
  C1, as the code has it. Construction merges the override over the base with
  \<^verbatim>\<open>dict.update\<close>, which is right-biased at the top level only: for every base
  mapping \<open>base\<close> that \<^verbatim>\<open>_load_config()\<close> reads from the global settings file and
  every override mapping \<open>override\<close> the caller passes (empty or not),
  \<^verbatim>\<open>self.settings\<close> becomes \<open>base ++ override\<close>. Every key of the override takes the
  override's value, whole; every other key keeps the base's value. An \<^verbatim>\<open>auth\<close> mapping
  in the override therefore replaces the base's \<^verbatim>\<open>auth\<close> mapping; it is not merged
  into it.
\<close>

theorem init_settings_shallow_merge:
  assumes "os_path_exists E (GLOBAL_SETTINGS_FILE E)"
    and "load_config E None w = (Inr base, w1)"
  shows "init_settings E (SettingsDict override) w = (Inr (base ++ override), w1)
         \<and> (\<forall>k. (base ++ override) k = (case override k of None \<Rightarrow> base k | Some v \<Rightarrow> Some v))"
proof (cases "override = Map.empty")
  case True
  with assms show ?thesis
    by (simp add: init_settings_def base_settings_def)
next
  case False
  with assms show ?thesis
    by (simp add: init_settings_def base_settings_def map_add_def)
qed

text \<open>The theorem at the specification's example: the merged \<^verbatim>\<open>auth\<close> holds the
  override's token and nothing else, and \<^verbatim>\<open>x\<close> is inherited. With the empty override
  the settings are the base.\<close>

theorem init_settings_shallow_merge_witness:
  "os_path_exists example_env (GLOBAL_SETTINGS_FILE example_env)
   \<and> load_config example_env None example_world = (Inr example_base, example_loaded)
   \<and> init_settings example_env (SettingsDict example_override) example_world
       = (Inr (example_base ++ example_override), example_loaded)
   \<and> (example_base ++ example_override) ''auth'' = Some (PDict [''token'' \<mapsto> PStr ''B''])
   \<and> (example_base ++ example_override) ''x'' = Some (PInt 1)
   \<and> init_settings example_env (SettingsDict Map.empty) example_world
       = (Inr example_base, example_loaded)"
proof -
  note g = example_global_exists
  note l = example_load_config
  from init_settings_shallow_merge [OF g l, of example_override]
  have a: "init_settings example_env (SettingsDict example_override) example_world
       = (Inr (example_base ++ example_override), example_loaded)"
    by (rule conjunct1)
  from init_settings_shallow_merge [OF g l, of Map.empty]
  have b: "init_settings example_env (SettingsDict Map.empty) example_world
       = (Inr example_base, example_loaded)"
    by simp
  have x: "(example_base ++ example_override) ''x'' = Some (PInt 1)"
    by (simp add: example_base_def example_override_def)
  from g l a b x example_merged_auth show ?thesis
    by blast
qed

text \<open>
  C1 as stated fails. With base \<^verbatim>\<open>{"auth": {"type": "basic", "token": "A"}, "x": 1}\<close>
  and override \<^verbatim>\<open>{"auth": {"token": "B"}}\<close> the constructor's merged settings are not
  the mapping \<^verbatim>\<open>{"auth": {"type": "basic", "token": "B"}, "x": 1}\<close> that the
  specification's merge gives; they are \<^verbatim>\<open>{"auth": {"token": "B"}, "x": 1}\<close>, and
  construction then stops at \<^verbatim>\<open>auth_settings['type']\<close> with a \<open>KeyError\<close>.
\<close>

theorem merge_nested_counterexample:
  "fst (init_settings example_env (SettingsDict example_override) example_world)
     \<noteq> Inr [''auth'' \<mapsto> PDict [''type'' \<mapsto> PStr ''basic'', ''token'' \<mapsto> PStr ''B''],
            ''x'' \<mapsto> PInt 1]
   \<and> spec_merge example_base example_override
       = [''auth'' \<mapsto> PDict [''type'' \<mapsto> PStr ''basic'', ''token'' \<mapsto> PStr ''B''],
          ''x'' \<mapsto> PInt 1]
   \<and> fst (init_settings example_env (SettingsDict example_override) example_world)
     = Inr [''auth'' \<mapsto> PDict [''token'' \<mapsto> PStr ''B''], ''x'' \<mapsto> PInt 1]
   \<and> fst (init example_env (SettingsDict example_override) example_world)
     = Inl (KeyError ''type'')"
proof (intro conjI)
  let ?expected = "[''auth'' \<mapsto> PDict [''type'' \<mapsto> PStr ''basic'', ''token'' \<mapsto> PStr ''B''],
            ''x'' \<mapsto> PInt 1]"
  note run = example_init_settings_dict [OF example_override_nonempty]
  show "fst (init_settings example_env (SettingsDict example_override) example_world)
     \<noteq> Inr ?expected"
  proof
    assume "fst (init_settings example_env (SettingsDict example_override) example_world)
      = Inr ?expected"
    then have "example_base ++ example_override = ?expected"
      by (simp add: run)
    then have "(example_base ++ example_override) ''auth'' = ?expected ''auth''"
      by (rule arg_cong)
    then have "[''token'' \<mapsto> PStr ''B'']
        = [''type'' \<mapsto> PStr ''basic'', ''token'' \<mapsto> PStr ''B'']"
      by (simp add: example_merged_auth)
    then have "[''token'' \<mapsto> PStr ''B''] ''type''
        = [''type'' \<mapsto> PStr ''basic'', ''token'' \<mapsto> PStr ''B''] ''type''"
      by (rule arg_cong)
    then show False by simp
  qed
  show "spec_merge example_base example_override = ?expected"
    by (rule ext) (simp add: spec_merge_def example_base_def example_override_def)
  show "fst (init_settings example_env (SettingsDict example_override) example_world)
     = Inr [''auth'' \<mapsto> PDict [''token'' \<mapsto> PStr ''B''], ''x'' \<mapsto> PInt 1]"
    by (simp add: run) (rule ext, simp add: example_base_def example_override_def)
  show "fst (init example_env (SettingsDict example_override) example_world)
     = Inl (KeyError ''type'')"
    by (simp add: init_def run init_auth_def dict_getitem_def subscript_def
        example_merged_auth)
qed

section \<open>Construction fails without settings, and on an unknown scheme\<close>

text \<open>
  C7, as the code has it. When the global settings file does not exist and the
  \<^verbatim>\<open>settings\<close> argument is absent or empty (\<^verbatim>\<open>None\<close>, \<^verbatim>\<open>''\<close> or \<^verbatim>\<open>{}\<close>, which
  \<^verbatim>\<open>not settings\<close> treats alike), construction raises
  \<^verbatim>\<open>Exception('No settings given')\<close> and leaves the world as it was (nothing is opened,
  no authenticator is built, no request is sent). When the global file exists, or a
  non-empty path or mapping is passed, whatever construction does, it does not raise that
  error.
\<close>

theorem init_no_settings:
  "(\<not> os_path_exists E (GLOBAL_SETTINGS_FILE E)
      \<and> (s = NoSettings \<or> s = SettingsPath [] \<or> s = SettingsDict Map.empty)
      \<longrightarrow> init E s w = (Inl (Exception ''No settings given''), w))
   \<and> (os_path_exists E (GLOBAL_SETTINGS_FILE E)
        \<or> (\<exists>p. s = SettingsPath p \<and> p \<noteq> []) \<or> (\<exists>d. s = SettingsDict d \<and> d \<noteq> Map.empty)
      \<longrightarrow> fst (init E s w) \<noteq> Inl (Exception ''No settings given''))"
proof (intro conjI impI)
  assume "\<not> os_path_exists E (GLOBAL_SETTINGS_FILE E)
      \<and> (s = NoSettings \<or> s = SettingsPath [] \<or> s = SettingsDict Map.empty)"
  then have "\<not> os_path_exists E (GLOBAL_SETTINGS_FILE E) \<and> \<not> truthy s"
    by auto
  then show "init E s w = (Inl (Exception ''No settings given''), w)"
    by (simp add: init_def init_settings_def)
next
  assume "os_path_exists E (GLOBAL_SETTINGS_FILE E)
        \<or> (\<exists>p. s = SettingsPath p \<and> p \<noteq> []) \<or> (\<exists>d. s = SettingsDict d \<and> d \<noteq> Map.empty)"
  then have present: "os_path_exists E (GLOBAL_SETTINGS_FILE E) \<or> truthy s"
    by auto
  obtain r w1 where i: "init_settings E s w = (r, w1)" by (cases "init_settings E s w")
  show "fst (init E s w) \<noteq> Inl (Exception ''No settings given'')"
  proof (cases r)
    case (Inl e)
    with i init_settings_error [OF _ present] have "e = IOError \<or> (\<exists>x. e = Propagated x)"
      by blast
    with i Inl show ?thesis by (auto simp: init_def)
  next
    case (Inr m)
    obtain r2 w2 where a: "init_auth E m w1 = (r2, w2)" by (cases "init_auth E m w1")
    with i Inr init_auth_error [of E m w1 _ w2] show ?thesis
      by (cases r2) (auto simp: init_def)
  qed
qed

text \<open>Three constructions: no file and no settings; the file alone; settings alone.\<close>

theorem init_no_settings_witness:
  "\<not> os_path_exists bare_env (GLOBAL_SETTINGS_FILE bare_env)
   \<and> init bare_env NoSettings example_world
       = (Inl (Exception ''No settings given''), example_world)
   \<and> os_path_exists example_env (GLOBAL_SETTINGS_FILE example_env)
   \<and> fst (init example_env NoSettings example_world) \<noteq> Inl (Exception ''No settings given'')
   \<and> example_base \<noteq> Map.empty
   \<and> fst (init bare_env (SettingsDict example_base) example_world)
       \<noteq> Inl (Exception ''No settings given'')"
proof -
  have ne: "example_base \<noteq> Map.empty"
    by (simp add: example_base_def)
  from init_no_settings [of bare_env NoSettings example_world]
    init_no_settings [of example_env NoSettings example_world]
    init_no_settings [of bare_env "SettingsDict example_base" example_world]
    ne bare_global_missing example_global_exists
  show ?thesis
    by simp
qed

text \<open>
  C7 as stated fails. Without a global settings file, \<^verbatim>\<open>Client({})\<close> and
  \<^verbatim>\<open>Client('')\<close> pass an override and still raise
  \<^verbatim>\<open>Exception('No settings given')\<close>: line 30 tests \<^verbatim>\<open>not settings\<close>, not whether the
  argument was given.
\<close>

theorem init_empty_override_counterexample:
  "\<not> os_path_exists bare_env (GLOBAL_SETTINGS_FILE bare_env)
   \<and> init bare_env (SettingsDict Map.empty) example_world
       = (Inl (Exception ''No settings given''), example_world)
   \<and> init bare_env (SettingsPath []) example_world
       = (Inl (Exception ''No settings given''), example_world)"
  by (simp add: bare_global_missing init_def init_settings_def)



section \<open>Requests issued by the methods\<close>

lemma sent_send_request:
  "send_request E a req w = (r, w') \<Longrightarrow> sent w' = sent w @ [req]"
  by (auto simp: send_request_def split: prod.splits)

lemma streams_send_request_no_files:
  "send_request E a req w = (r, w') \<Longrightarrow> files req = None \<Longrightarrow> streams w' = streams w"
  by (auto simp: send_request_def passed_streams_def split: prod.splits)

text \<open>A call that passes no file: the authenticator sees no file object, and the
  world changes in the network state and the log only.\<close>

lemma send_request_no_files:
  "files req = None \<Longrightarrow> auth_send_request E a req (net w) Map.empty = (r, n, ss)
    \<Longrightarrow> send_request E a req w
        = ((case r of Inl x \<Rightarrow> Inl (Propagated x) | Inr v \<Rightarrow> Inr v),
           w\<lparr>net := n, sent := sent w @ [req]\<rparr>)"
  by (simp add: send_request_def passed_streams_def)

lemma send_request_no_files_result:
  "send_request E a req w = (Inr v, w') \<Longrightarrow> files req = None
    \<Longrightarrow> \<exists>n ss. auth_send_request E a req (net w) Map.empty = (Inr v, n, ss)"
  by (auto simp: send_request_def passed_streams_def split: prod.splits sum.splits)

lemma sent_open_inputfile:
  "open_inputfile E inp w = (r, w') \<Longrightarrow> sent w' = sent w"
  by (cases inp) (auto simp: py_open_def split: if_splits)

lemma files_upload_request: "files (upload_request name mime_type) = None"
  by (simp add: upload_request_def call_args_def)

lemma upload_file_success:
  assumes "upload_file E self inp filename file_type w = (Inr v, w')"
  shows "\<exists>file_handle w1 name w2 upload_url form r.
           open_inputfile E inp w = (Inr file_handle, w1)
         \<and> resolve_name w1 filename file_handle = Inr name
         \<and> send_request E (auth self)
              (upload_request name (resolve_mime_type E file_type name)) w1 = (Inr v, w2)
         \<and> subscript v ''upload_url'' = Inr upload_url
         \<and> subscript v ''data'' = Inr form
         \<and> send_request E (auth self) (file_submission upload_url form file_handle) w2
              = (Inr r, w')"
  using assms unfolding upload_file_def
  by (auto split: prod.splits sum.splits)

subsection \<open>The concrete installation, uploading \<^verbatim>\<open>/tmp/a.txt\<close>\<close>

lemmas upload_eval =
  upload_file_def py_open_def send_request_def resolve_name_def handle_name_def
  resolve_mime_type_def upload_request_def file_submission_def call_args_def
  passed_streams_def subscript_def dict_getitem_def example_service_def example_ticket_def
  example_world_def example_client_def UPLOAD_URL_def BASE_URL_def

lemma example_upload_result:
  "fst (upload_file example_env example_client (Path ''/tmp/a.txt'') None None example_world)
     = Inr example_ticket"
  by (simp add: upload_eval example_env_def)


lemma example_upload_opened:
  "open_inputfile example_env (Path ''/tmp/a.txt'') example_world
     = (Inr 0, example_world\<lparr>streams := [0 \<mapsto> \<lparr>stream_name = Some ''/tmp/a.txt'',
                                   stream_pos = 0, stream_closed = False\<rparr>],
                               next_handle := 1\<rparr>)"
  by (simp add: py_open_def example_env_def example_world_def)

lemma rejecting_upload_opened:
  "open_inputfile rejecting_env (Path ''/tmp/a.txt'') example_world
     = (Inr 0, example_world\<lparr>streams := [0 \<mapsto> \<lparr>stream_name = Some ''/tmp/a.txt'',
                                   stream_pos = 0, stream_closed = False\<rparr>],
                               next_handle := 1\<rparr>)"
  by (simp add: py_open_def rejecting_env_def example_env_def example_world_def)

section \<open>The two-phase upload\<close>



text \<open>
  C8. The value a successful \<^verbatim>\<open>upload_file\<close> returns is the parsed response of the
  upload-request call (phase A); the response \<open>r\<close> of the file submission (phase B) is
  dropped.
\<close>

theorem upload_file_returns_ticket:
  assumes "upload_file E self inp filename file_type w = (Inr v, w')"
  shows "\<exists>file_handle w1 name w2 upload_url form r.
           open_inputfile E inp w = (Inr file_handle, w1)
         \<and> resolve_name w1 filename file_handle = Inr name
         \<and> send_request E (auth self)
              (upload_request name (resolve_mime_type E file_type name)) w1 = (Inr v, w2)
         \<and> send_request E (auth self) (file_submission upload_url form file_handle) w2
              = (Inr r, w')"
  using upload_file_success [OF assms] by blast

text \<open>On the concrete installation phase A answers with the ticket and phase B with a
  listing; the upload returns the ticket.\<close>

theorem upload_file_returns_ticket_witness:
  "upload_file example_env example_client (Path ''/tmp/a.txt'') None None example_world
     = (Inr example_ticket,
        snd (upload_file example_env example_client (Path ''/tmp/a.txt'') None None
               example_world))
   \<and> (\<exists>w1 w2.
         send_request example_env (auth example_client)
           (upload_request ''/tmp/a.txt'' (PTuple [PStr ''text/plain'', PNone])) w1
           = (Inr example_ticket, w2)
       \<and> fst (send_request example_env (auth example_client)
                 (file_submission (PStr ''https://upload.example/slot'')
                    (PDict [''key'' \<mapsto> PStr ''k'']) 0) w2)
           = Inr example_listing)"
proof -
  let ?U = "upload_file example_env example_client (Path ''/tmp/a.txt'') None None
      example_world"
  have run: "?U = (Inr example_ticket, snd ?U)"
    using example_upload_result by (simp add: prod_eq_iff)
  from upload_file_returns_ticket [OF run]
  obtain file_handle w1 name w2 upload_url form r where
    op: "open_inputfile example_env (Path ''/tmp/a.txt'') example_world = (Inr file_handle, w1)"
    and nm: "resolve_name w1 None file_handle = Inr name"
    and a: "send_request example_env (auth example_client)
          (upload_request name (resolve_mime_type example_env None name)) w1
          = (Inr example_ticket, w2)"
    by blast
  from op example_upload_opened
  have fh: "file_handle = 0" and w1: "w1 = example_world\<lparr>streams :=
      [0 \<mapsto> \<lparr>stream_name = Some ''/tmp/a.txt'', stream_pos = 0, stream_closed = False\<rparr>],
      next_handle := 1\<rparr>"
    by simp_all
  from nm have name: "name = ''/tmp/a.txt''"
    by (simp add: fh w1 resolve_name_def handle_name_def)
  have mime: "resolve_mime_type example_env None ''/tmp/a.txt''
      = PTuple [PStr ''text/plain'', PNone]"
    by (simp add: resolve_mime_type_def example_env_def)
  have b: "fst (send_request example_env (auth example_client)
                 (file_submission (PStr ''https://upload.example/slot'')
                    (PDict [''key'' \<mapsto> PStr ''k'']) 0) w2)
           = Inr example_listing"
    by (simp add: send_request_def example_env_def example_service_def file_submission_def
        call_args_def UPLOAD_URL_def BASE_URL_def split: prod.splits)
  from a b show ?thesis
    unfolding name mime using run by blast
qed

text \<open>
  C4. If the phase-A call raises, \<^verbatim>\<open>upload_file\<close> raises the same exception at once:
  the only request it has issued is the upload request (so no phase-B call), and every
  file object is as it was right after line 236 resolved the stream; nothing has been
  read from it.
\<close>

theorem upload_file_phase_a_failure:
  assumes "open_inputfile E inp w = (Inr file_handle, w1)"
    and "resolve_name w1 filename file_handle = Inr name"
    and "send_request E (auth self)
           (upload_request name (resolve_mime_type E file_type name)) w1 = (Inl e, w2)"
  shows "upload_file E self inp filename file_type w = (Inl e, w2)
       \<and> sent w2 = sent w @ [upload_request name (resolve_mime_type E file_type name)]
       \<and> streams w2 = streams w1"
proof (intro conjI)
  show "upload_file E self inp filename file_type w = (Inl e, w2)"
    using assms by (simp add: upload_file_def)
  show "sent w2 = sent w @ [upload_request name (resolve_mime_type E file_type name)]"
    using sent_open_inputfile [OF assms(1)] sent_send_request [OF assms(3)] by simp
  show "streams w2 = streams w1"
    using streams_send_request_no_files [OF assms(3) files_upload_request] .
qed

text \<open>With a service that rejects every request, the upload of \<^verbatim>\<open>/tmp/a.txt\<close> raises
  after one request, and the opened stream is still at position 0.\<close>

theorem upload_file_phase_a_failure_witness:
  "open_inputfile rejecting_env (Path ''/tmp/a.txt'') example_world
     = (Inr 0, example_world\<lparr>streams := [0 \<mapsto> \<lparr>stream_name = Some ''/tmp/a.txt'',
                                   stream_pos = 0, stream_closed = False\<rparr>],
                               next_handle := 1\<rparr>)
   \<and> fst (upload_file rejecting_env example_client (Path ''/tmp/a.txt'') None None
            example_world) = Inl (Propagated ''RequestError'')
   \<and> sent (snd (upload_file rejecting_env example_client (Path ''/tmp/a.txt'') None None
                  example_world))
       = [upload_request ''/tmp/a.txt'' (PTuple [PStr ''text/plain'', PNone])]
   \<and> streams (snd (upload_file rejecting_env example_client (Path ''/tmp/a.txt'') None None
                     example_world))
       = [0 \<mapsto> \<lparr>stream_name = Some ''/tmp/a.txt'', stream_pos = 0, stream_closed = False\<rparr>]"
proof -
  let ?w1 = "example_world\<lparr>streams := [0 \<mapsto> \<lparr>stream_name = Some ''/tmp/a.txt'',
      stream_pos = 0, stream_closed = False\<rparr>], next_handle := 1\<rparr>"
  let ?req = "upload_request ''/tmp/a.txt'' (resolve_mime_type rejecting_env None ''/tmp/a.txt'')"
  have nm: "resolve_name ?w1 None 0 = Inr ''/tmp/a.txt''"
    by (simp add: resolve_name_def handle_name_def)
  have mime: "resolve_mime_type rejecting_env None ''/tmp/a.txt''
      = PTuple [PStr ''text/plain'', PNone]"
    by (simp add: resolve_mime_type_def rejecting_env_def example_env_def)
  have a: "send_request rejecting_env (auth example_client) ?req ?w1
      = (Inl (Propagated ''RequestError''),
         snd (send_request rejecting_env (auth example_client) ?req ?w1))"
    by (simp add: send_request_def rejecting_env_def prod_eq_iff split: prod.splits)
  note r = upload_file_phase_a_failure [OF rejecting_upload_opened nm a]
  let ?U = "upload_file rejecting_env example_client (Path ''/tmp/a.txt'') None None
      example_world"
  let ?w2 = "snd (send_request rejecting_env (auth example_client) ?req ?w1)"
  from r have u: "?U = (Inl (Propagated ''RequestError''), ?w2)"
    by (rule conjunct1)
  from r have s2: "sent ?w2 = sent example_world @ [?req]"
    by (rule conjunct2 [THEN conjunct1])
  from r have t2: "streams ?w2 = streams ?w1"
    by (rule conjunct2 [THEN conjunct2])
  have "fst ?U = Inl (Propagated ''RequestError'')"
    by (simp add: u)
  moreover have "sent (snd ?U)
      = [upload_request ''/tmp/a.txt'' (PTuple [PStr ''text/plain'', PNone])]"
    using s2 unfolding u snd_conv mime by (simp add: example_world_def)
  moreover have "streams (snd ?U)
      = [0 \<mapsto> \<lparr>stream_name = Some ''/tmp/a.txt'', stream_pos = 0, stream_closed = False\<rparr>]"
    using t2 unfolding u snd_conv by simp
  ultimately show ?thesis
    using rejecting_upload_opened by blast
qed

text \<open>
  C9. With no \<^verbatim>\<open>file_type\<close> argument (or an empty one), the \<^verbatim>\<open>file_type\<close> field of
  the phase-A payload is the whole pair \<^verbatim>\<open>mimetypes.guess_type(name)\<close> returns, type
  and encoding, and so never a plain string.
\<close>

theorem upload_file_guessed_mime_pair:
  assumes "nonempty file_type = None"
    and "open_inputfile E inp w = (Inr file_handle, w1)"
    and "resolve_name w1 filename file_handle = Inr name"
  shows "(\<exists>rest. sent (snd (upload_file E self inp filename file_type w)) = sent w @
            \<lparr>url = PStr UPLOAD_URL, http_method = ''POST'', headers = None, params = None,
             data = Some (PDict [''file_name'' \<mapsto> PStr name,
                        ''file_type'' \<mapsto> PTuple [opt_str (fst (guess_type E name)),
                                                  opt_str (snd (guess_type E name))]]),
             files = None, skip_auth = None\<rparr> # rest)
       \<and> (\<forall>t. resolve_mime_type E file_type name \<noteq> PStr t)"
proof -
  have mime: "resolve_mime_type E file_type name
      = PTuple [opt_str (fst (guess_type E name)), opt_str (snd (guess_type E name))]"
    using assms(1) by (simp add: resolve_mime_type_def split: prod.splits)
  let ?req = "upload_request name (resolve_mime_type E file_type name)"
  obtain ra w2 where a: "send_request E (auth self) ?req w1 = (ra, w2)"
    by (cases "send_request E (auth self) ?req w1")
  have s2: "sent w2 = sent w @ [?req]"
    using sent_open_inputfile [OF assms(2)] sent_send_request [OF a] by simp
  have "\<exists>rest. sent (snd (upload_file E self inp filename file_type w)) = sent w @ ?req # rest"
  proof (cases ra)
    case (Inl e)
    with a assms s2 show ?thesis by (simp add: upload_file_def)
  next
    case (Inr resp)
    show ?thesis
    proof (cases "subscript resp ''upload_url''")
      case (Inl e)
      with a assms s2 Inr show ?thesis by (simp add: upload_file_def)
    next
      case u: (Inr upload_url)
      show ?thesis
      proof (cases "subscript resp ''data''")
        case (Inl e)
        with a assms s2 Inr u show ?thesis by (simp add: upload_file_def)
      next
        case d: (Inr form)
        let ?sub = "file_submission upload_url form file_handle"
        obtain rb w3 where b: "send_request E (auth self) ?sub w2 = (rb, w3)"
          by (cases "send_request E (auth self) ?sub w2")
        have s3: "sent w3 = sent w @ [?req, ?sub]"
          using s2 sent_send_request [OF b] by simp
        from a assms Inr u d b s3 show ?thesis
          by (cases rb) (simp_all add: upload_file_def)
      qed
    qed
  qed
  then show ?thesis
    unfolding mime by (simp add: upload_request_def call_args_def)
qed

text \<open>On the concrete installation, where the guess for any name is
  \<^verbatim>\<open>('text/plain', None)\<close>.\<close>

theorem upload_file_guessed_mime_pair_witness:
  "nonempty None = None
   \<and> open_inputfile example_env (Path ''/tmp/a.txt'') example_world
     = (Inr 0, example_world\<lparr>streams := [0 \<mapsto> \<lparr>stream_name = Some ''/tmp/a.txt'',
                                   stream_pos = 0, stream_closed = False\<rparr>],
                               next_handle := 1\<rparr>)
   \<and> (\<exists>rest. sent (snd (upload_file example_env example_client (Path ''/tmp/a.txt'') None None
                           example_world)) =
            \<lparr>url = PStr UPLOAD_URL, http_method = ''POST'', headers = None, params = None,
             data = Some (PDict [''file_name'' \<mapsto> PStr ''/tmp/a.txt'',
                                 ''file_type'' \<mapsto> PTuple [PStr ''text/plain'', PNone]]),
             files = None, skip_auth = None\<rparr> # rest)"
proof -
  let ?w1 = "example_world\<lparr>streams := [0 \<mapsto> \<lparr>stream_name = Some ''/tmp/a.txt'',
      stream_pos = 0, stream_closed = False\<rparr>], next_handle := 1\<rparr>"
  have nm: "resolve_name ?w1 None 0 = Inr ''/tmp/a.txt''"
    by (simp add: resolve_name_def handle_name_def)
  have e: "nonempty None = None" by simp
  have g: "guess_type example_env ''/tmp/a.txt'' = (Some ''text/plain'', None)"
    by (simp add: example_env_def)
  have s0: "sent example_world = []"
    by (simp add: example_world_def)
  note r = upload_file_guessed_mime_pair [OF e example_upload_opened nm, of example_client]
  from r have "\<exists>rest. sent (snd (upload_file example_env example_client (Path ''/tmp/a.txt'')
                           None None example_world)) =
            \<lparr>url = PStr UPLOAD_URL, http_method = ''POST'', headers = None, params = None,
             data = Some (PDict [''file_name'' \<mapsto> PStr ''/tmp/a.txt'',
                                 ''file_type'' \<mapsto> PTuple [PStr ''text/plain'', PNone]]),
             files = None, skip_auth = None\<rparr> # rest"
    unfolding g s0 by simp
  with e example_upload_opened show ?thesis
    by blast
qed

text \<open>
  C3. \<^verbatim>\<open>upload_file\<close> has no \<^verbatim>\<open>close\<close>, no \<^verbatim>\<open>with\<close> block and no
  \<^verbatim>\<open>try\<close>/\<^verbatim>\<open>finally\<close>: the stream it opens from a path is left open on every exit
  path. Uploading \<^verbatim>\<open>/tmp/a.txt\<close> by path, the stream (object 0, which did not exist
  before the call) is still open when the call returns the ticket, when phase A raises,
  and when phase B raises. \<^verbatim>\<open>_load_config\<close>, in the same class, does close the file it
  opens.
\<close>

theorem upload_file_leaves_stream_open:
  "streams example_world 0 = None
   \<and> fst (upload_file example_env example_client (Path ''/tmp/a.txt'') None None
            example_world) = Inr example_ticket
   \<and> streams (snd (upload_file example_env example_client (Path ''/tmp/a.txt'') None None
                     example_world)) 0
       = Some \<lparr>stream_name = Some ''/tmp/a.txt'', stream_pos = 5, stream_closed = False\<rparr>
   \<and> fst (upload_file rejecting_env example_client (Path ''/tmp/a.txt'') None None
            example_world) = Inl (Propagated ''RequestError'')
   \<and> streams (snd (upload_file rejecting_env example_client (Path ''/tmp/a.txt'') None None
                     example_world)) 0
       = Some \<lparr>stream_name = Some ''/tmp/a.txt'', stream_pos = 0, stream_closed = False\<rparr>
   \<and> fst (upload_file rejecting_storage_env example_client (Path ''/tmp/a.txt'') None None
            example_world) = Inl (Propagated ''RequestError'')
   \<and> streams (snd (upload_file rejecting_storage_env example_client (Path ''/tmp/a.txt'')
                     None None example_world)) 0
       = Some \<lparr>stream_name = Some ''/tmp/a.txt'', stream_pos = 0, stream_closed = False\<rparr>
   \<and> streams (snd (load_config example_env None example_world)) 0
       = Some \<lparr>stream_name = Some ''/home/u/.pybulletrc'', stream_pos = 0,
               stream_closed = True\<rparr>"
proof (intro conjI)
  show "streams example_world 0 = None"
    by (simp add: example_world_def)
  show "fst (upload_file example_env example_client (Path ''/tmp/a.txt'') None None
            example_world) = Inr example_ticket"
    by (rule example_upload_result)
  show "streams (snd (upload_file example_env example_client (Path ''/tmp/a.txt'') None None
                     example_world)) 0
       = Some \<lparr>stream_name = Some ''/tmp/a.txt'', stream_pos = 5, stream_closed = False\<rparr>"
    by (simp add: upload_eval example_env_def)
  show "fst (upload_file rejecting_env example_client (Path ''/tmp/a.txt'') None None
            example_world) = Inl (Propagated ''RequestError'')"
    by (simp add: upload_eval rejecting_env_def example_env_def)
  show "streams (snd (upload_file rejecting_env example_client (Path ''/tmp/a.txt'') None None
                     example_world)) 0
       = Some \<lparr>stream_name = Some ''/tmp/a.txt'', stream_pos = 0, stream_closed = False\<rparr>"
    by (simp add: upload_eval rejecting_env_def example_env_def)
  show "fst (upload_file rejecting_storage_env example_client (Path ''/tmp/a.txt'') None None
            example_world) = Inl (Propagated ''RequestError'')"
    by (simp add: upload_eval rejecting_storage_env_def example_env_def)
  show "streams (snd (upload_file rejecting_storage_env example_client (Path ''/tmp/a.txt'')
                     None None example_world)) 0
       = Some \<lparr>stream_name = Some ''/tmp/a.txt'', stream_pos = 0, stream_closed = False\<rparr>"
    by (simp add: upload_eval rejecting_storage_env_def example_env_def)
  show "streams (snd (load_config example_env None example_world)) 0
       = Some \<lparr>stream_name = Some ''/home/u/.pybulletrc'', stream_pos = 0,
               stream_closed = True\<rparr>"
    by (simp add: load_config_def py_open_def py_close_def example_env_def example_world_def)
qed

section \<open>Pushes\<close>

text \<open>The thin methods in terms of the authenticator alone.\<close>

lemma returning_response_no_files:
  "files req = None \<Longrightarrow>
   returning_response E self req w
     = (case auth_send_request E (auth self) req (net w) Map.empty of
          (r, n, ss) \<Rightarrow>
            ((case r of Inl x \<Rightarrow> Inl (Propagated x) | Inr resp \<Rightarrow> Inr resp),
             w\<lparr>net := n, sent := sent w @ [req]\<rparr>))"
  by (simp add: returning_response_def send_request_def passed_streams_def
      split: prod.splits sum.splits)

lemma returning_field_no_files:
  "files req = None \<Longrightarrow>
   returning_field E self req k w
     = (case auth_send_request E (auth self) req (net w) Map.empty of
          (r, n, ss) \<Rightarrow>
            ((case r of Inl x \<Rightarrow> Inl (Propagated x) | Inr resp \<Rightarrow> subscript resp k),
             w\<lparr>net := n, sent := sent w @ [req]\<rparr>))"
  by (simp add: returning_field_def send_request_def passed_streams_def
      split: prod.splits sum.splits)

lemma returning_nothing_no_files:
  "files req = None \<Longrightarrow>
   returning_nothing E self req w
     = (case auth_send_request E (auth self) req (net w) Map.empty of
          (r, n, ss) \<Rightarrow>
            ((case r of Inl x \<Rightarrow> Inl (Propagated x) | Inr resp \<Rightarrow> Inr PNone),
             w\<lparr>net := n, sent := sent w @ [req]\<rparr>))"
  by (simp add: returning_nothing_def send_request_def passed_streams_def
      split: prod.splits sum.splits)

lemmas thin_no_files =
  returning_response_no_files returning_field_no_files returning_nothing_no_files

lemmas url_defs =
  BASE_URL_def CONTACTS_URL_def DEVICE_URL_def ME_URL_def PUSH_URL_def UPLOAD_URL_def

lemma example_raw:
  "url req \<noteq> PStr UPLOAD_URL \<Longrightarrow>
   auth_send_request example_env (auth example_client) req (net example_world) Map.empty
     = (Inr example_listing, Suc 0, Map.empty)"
  by (simp add: example_env_def example_service_def example_world_def)

lemma rejecting_raw:
  "auth_send_request rejecting_env (auth example_client) req (net example_world) Map.empty
     = (Inl ''RequestError'', Suc 0, Map.empty)"
  by (simp add: rejecting_env_def example_world_def)

lemma example_sent_empty: "sent example_world = []"
  by (simp add: example_world_def)

text \<open>
  C5, as the code has it. For every push type (so for each of \<^verbatim>\<open>note\<close>,
  \<^verbatim>\<open>link\<close>, \<^verbatim>\<open>address\<close>, \<^verbatim>\<open>list\<close>, \<^verbatim>\<open>file\<close>) and every keyword-argument mapping
  that has no key \<^verbatim>\<open>self\<close> or \<^verbatim>\<open>push_type\<close>, \<^verbatim>\<open>push\<close> is exactly one
  \<^verbatim>\<open>send_request\<close> call: a POST to the push endpoint whose payload is the keyword
  arguments with the \<^verbatim>\<open>type\<close> field set to the push type. Whatever the authenticator
  answers to that one call, \<^verbatim>\<open>push\<close> returns its response, or raises its exception,
  and the world changes by the authenticator's network state and that one logged call.
  With a key \<^verbatim>\<open>self\<close> or \<^verbatim>\<open>push_type\<close> the call raises \<open>TypeError\<close> and nothing is
  sent.
\<close>

theorem push_single_call:
  "(kwargs ''self'' = None \<and> kwargs ''push_type'' = None
      \<and> auth_send_request E (auth self)
          \<lparr>url = PStr PUSH_URL, http_method = ''POST'', headers = None,
           params = None,
           data = Some (PDict (kwargs(''type'' \<mapsto> push_type))),
           files = None, skip_auth = None\<rparr>
          (net w) Map.empty = (r, n, ss)
      \<longrightarrow> push E self push_type kwargs w
          = ((case r of Inl x \<Rightarrow> Inl (Propagated x) | Inr resp \<Rightarrow> Inr resp),
             w\<lparr>net := n, sent := sent w @
               [\<lparr>url = PStr PUSH_URL, http_method = ''POST'', headers = None,
                 params = None,
                 data = Some (PDict (kwargs(''type'' \<mapsto> push_type))),
                 files = None, skip_auth = None\<rparr>]\<rparr>))
   \<and> (kwargs ''self'' \<noteq> None \<or> kwargs ''push_type'' \<noteq> None
      \<longrightarrow> push E self push_type kwargs w = (Inl TypeError, w))"
  by (auto simp: push_def thin_no_files call_args_def)

text \<open>
  C5 as stated fails. \<^verbatim>\<open>push('note', **{'push_type': 'x'})\<close> is a call with push type
  \<^verbatim>\<open>note\<close> and a keyword-argument mapping, and it sends nothing: binding the
  arguments raises \<open>TypeError\<close>.
\<close>

theorem push_keyword_clash_counterexample:
  "push example_env example_client (PStr ''note'') [''push_type'' \<mapsto> PStr ''x''] example_world
     = (Inl TypeError, example_world)
   \<and> sent (snd (push example_env example_client (PStr ''note'')
                  [''push_type'' \<mapsto> PStr ''x''] example_world)) = []"
  by (simp add: push_def example_world_def)

text \<open>One push of each of the five kinds on the concrete installation, and one with a
  keyword argument named \<^verbatim>\<open>self\<close>.\<close>

theorem push_single_call_witness:
  "push example_env example_client (PStr ''note'')
       [''title'' \<mapsto> PStr ''t'', ''body'' \<mapsto> PStr ''b''] example_world
     = (Inr example_listing,
        example_world\<lparr>net := 1, sent :=
          [\<lparr>url = PStr PUSH_URL, http_method = ''POST'', headers = None,
            params = None,
            data = Some (PDict ([''title'' \<mapsto> PStr ''t'', ''body'' \<mapsto> PStr ''b''](''type'' \<mapsto> PStr ''note''))),
            files = None, skip_auth = None\<rparr>]\<rparr>)
   \<and> push example_env example_client (PStr ''link'')
       [''title'' \<mapsto> PStr ''t'', ''url'' \<mapsto> PStr ''u''] example_world
     = (Inr example_listing,
        example_world\<lparr>net := 1, sent :=
          [\<lparr>url = PStr PUSH_URL, http_method = ''POST'', headers = None,
            params = None,
            data = Some (PDict ([''title'' \<mapsto> PStr ''t'', ''url'' \<mapsto> PStr ''u''](''type'' \<mapsto> PStr ''link''))),
            files = None, skip_auth = None\<rparr>]\<rparr>)
   \<and> push example_env example_client (PStr ''address'')
       [''name'' \<mapsto> PStr ''n'', ''address'' \<mapsto> PStr ''a''] example_world
     = (Inr example_listing,
        example_world\<lparr>net := 1, sent :=
          [\<lparr>url = PStr PUSH_URL, http_method = ''POST'', headers = None,
            params = None,
            data = Some (PDict ([''name'' \<mapsto> PStr ''n'', ''address'' \<mapsto> PStr ''a''](''type'' \<mapsto> PStr ''address''))),
            files = None, skip_auth = None\<rparr>]\<rparr>)
   \<and> push example_env example_client (PStr ''list'')
       [''title'' \<mapsto> PStr ''t'', ''items'' \<mapsto> PList [PStr ''i'']] example_world
     = (Inr example_listing,
        example_world\<lparr>net := 1, sent :=
          [\<lparr>url = PStr PUSH_URL, http_method = ''POST'', headers = None,
            params = None,
            data = Some (PDict ([''title'' \<mapsto> PStr ''t'', ''items'' \<mapsto> PList [PStr ''i'']](''type'' \<mapsto> PStr ''list''))),
            files = None, skip_auth = None\<rparr>]\<rparr>)
   \<and> push example_env example_client (PStr ''file'')
       [''file_name'' \<mapsto> PStr ''a.txt'', ''file_url'' \<mapsto> PStr ''u''] example_world
     = (Inr example_listing,
        example_world\<lparr>net := 1, sent :=
          [\<lparr>url = PStr PUSH_URL, http_method = ''POST'', headers = None,
            params = None,
            data = Some (PDict ([''file_name'' \<mapsto> PStr ''a.txt'', ''file_url'' \<mapsto> PStr ''u''](''type'' \<mapsto> PStr ''file''))),
            files = None, skip_auth = None\<rparr>]\<rparr>)
   \<and> push example_env example_client (PStr ''note'') [''self'' \<mapsto> PInt 0] example_world
     = (Inl TypeError, example_world)"
proof -
  from push_single_call [where E = example_env and self = example_client
      and w = example_world and push_type = "PStr ''note''"
      and kwargs = "[''title'' \<mapsto> PStr ''t'', ''body'' \<mapsto> PStr ''b'']"
      and r = "Inr example_listing" and n = "Suc 0" and ss = Map.empty]
  have p_note: "push example_env example_client (PStr ''note'')
       [''title'' \<mapsto> PStr ''t'', ''body'' \<mapsto> PStr ''b''] example_world
     = (Inr example_listing,
        example_world\<lparr>net := 1, sent :=
          [\<lparr>url = PStr PUSH_URL, http_method = ''POST'', headers = None,
            params = None,
            data = Some (PDict ([''title'' \<mapsto> PStr ''t'', ''body'' \<mapsto> PStr ''b''](''type'' \<mapsto> PStr ''note''))),
            files = None, skip_auth = None\<rparr>]\<rparr>)"
    by (simp add: example_raw example_sent_empty url_defs)
  from push_single_call [where E = example_env and self = example_client
      and w = example_world and push_type = "PStr ''link''"
      and kwargs = "[''title'' \<mapsto> PStr ''t'', ''url'' \<mapsto> PStr ''u'']"
      and r = "Inr example_listing" and n = "Suc 0" and ss = Map.empty]
  have p_link: "push example_env example_client (PStr ''link'')
       [''title'' \<mapsto> PStr ''t'', ''url'' \<mapsto> PStr ''u''] example_world
     = (Inr example_listing,
        example_world\<lparr>net := 1, sent :=
          [\<lparr>url = PStr PUSH_URL, http_method = ''POST'', headers = None,
            params = None,
            data = Some (PDict ([''title'' \<mapsto> PStr ''t'', ''url'' \<mapsto> PStr ''u''](''type'' \<mapsto> PStr ''link''))),
            files = None, skip_auth = None\<rparr>]\<rparr>)"
    by (simp add: example_raw example_sent_empty url_defs)
  from push_single_call [where E = example_env and self = example_client
      and w = example_world and push_type = "PStr ''address''"
      and kwargs = "[''name'' \<mapsto> PStr ''n'', ''address'' \<mapsto> PStr ''a'']"
      and r = "Inr example_listing" and n = "Suc 0" and ss = Map.empty]
  have p_address: "push example_env example_client (PStr ''address'')
       [''name'' \<mapsto> PStr ''n'', ''address'' \<mapsto> PStr ''a''] example_world
     = (Inr example_listing,
        example_world\<lparr>net := 1, sent :=
          [\<lparr>url = PStr PUSH_URL, http_method = ''POST'', headers = None,
            params = None,
            data = Some (PDict ([''name'' \<mapsto> PStr ''n'', ''address'' \<mapsto> PStr ''a''](''type'' \<mapsto> PStr ''address''))),
            files = None, skip_auth = None\<rparr>]\<rparr>)"
    by (simp add: example_raw example_sent_empty url_defs)
  from push_single_call [where E = example_env and self = example_client
      and w = example_world and push_type = "PStr ''list''"
      and kwargs = "[''title'' \<mapsto> PStr ''t'', ''items'' \<mapsto> PList [PStr ''i'']]"
      and r = "Inr example_listing" and n = "Suc 0" and ss = Map.empty]
  have p_list: "push example_env example_client (PStr ''list'')
       [''title'' \<mapsto> PStr ''t'', ''items'' \<mapsto> PList [PStr ''i'']] example_world
     = (Inr example_listing,
        example_world\<lparr>net := 1, sent :=
          [\<lparr>url = PStr PUSH_URL, http_method = ''POST'', headers = None,
            params = None,
            data = Some (PDict ([''title'' \<mapsto> PStr ''t'', ''items'' \<mapsto> PList [PStr ''i'']](''type'' \<mapsto> PStr ''list''))),
            files = None, skip_auth = None\<rparr>]\<rparr>)"
    by (simp add: example_raw example_sent_empty url_defs)
  from push_single_call [where E = example_env and self = example_client
      and w = example_world and push_type = "PStr ''file''"
      and kwargs = "[''file_name'' \<mapsto> PStr ''a.txt'', ''file_url'' \<mapsto> PStr ''u'']"
      and r = "Inr example_listing" and n = "Suc 0" and ss = Map.empty]
  have p_file: "push example_env example_client (PStr ''file'')
       [''file_name'' \<mapsto> PStr ''a.txt'', ''file_url'' \<mapsto> PStr ''u''] example_world
     = (Inr example_listing,
        example_world\<lparr>net := 1, sent :=
          [\<lparr>url = PStr PUSH_URL, http_method = ''POST'', headers = None,
            params = None,
            data = Some (PDict ([''file_name'' \<mapsto> PStr ''a.txt'', ''file_url'' \<mapsto> PStr ''u''](''type'' \<mapsto> PStr ''file''))),
            files = None, skip_auth = None\<rparr>]\<rparr>)"
    by (simp add: example_raw example_sent_empty url_defs)
  from push_single_call [where E = example_env and self = example_client
      and w = example_world and push_type = "PStr ''note''"
      and kwargs = "[''self'' \<mapsto> PInt 0]"]
  have p_clash: "push example_env example_client (PStr ''note'') [''self'' \<mapsto> PInt 0] example_world
     = (Inl TypeError, example_world)"
    by simp
  show ?thesis
    by (intro conjI) (fact p_note p_link p_address p_list p_file p_clash)+
qed

section \<open>What the methods return\<close>

text \<open>
  C10. \<^verbatim>\<open>delete_device\<close>, \<^verbatim>\<open>delete_push\<close> and \<^verbatim>\<open>delete_contact\<close> each hand one
  DELETE request to the authenticator; if it raises, so do they, and if it answers with a
  parsed response \<open>resp\<close>, whatever it is, they return \<^verbatim>\<open>None\<close>. Every other method
  returns the parsed response of its request or a field of it: \<^verbatim>\<open>devices\<close> returns
  \<^verbatim>\<open>resp['devices']\<close>, \<^verbatim>\<open>push_history\<close> returns \<^verbatim>\<open>resp['pushes']\<close>,
  \<^verbatim>\<open>upload_file\<close> the response of its upload request, and the others \<open>resp\<close> itself.
  In each case the world changes by the authenticator's network state and the one logged
  call. The four methods that take keyword arguments return nothing when a keyword names
  one of their positional parameters: the call raises \<open>TypeError\<close>.
\<close>

theorem delete_methods_return_none:
  "(auth_send_request E (auth self)
         \<lparr>url = PStr (DEVICE_URL @ ''/'' @ device_iden), http_method = ''DELETE'', headers = None,
          params = None,
          data = None,
          files = None, skip_auth = None\<rparr>
         (net w) Map.empty = (r, n, ss)
      \<longrightarrow> delete_device E self device_iden w
          = ((case r of Inl x \<Rightarrow> Inl (Propagated x) | Inr resp \<Rightarrow> Inr PNone),
             w\<lparr>net := n, sent := sent w @
               [\<lparr>url = PStr (DEVICE_URL @ ''/'' @ device_iden), http_method = ''DELETE'', headers = None,
                 params = None,
                 data = None,
                 files = None, skip_auth = None\<rparr>]\<rparr>))
   \<and> (auth_send_request E (auth self)
         \<lparr>url = PStr (PUSH_URL @ ''/'' @ push_iden), http_method = ''DELETE'', headers = None,
          params = None,
          data = None,
          files = None, skip_auth = None\<rparr>
         (net w) Map.empty = (r, n, ss)
      \<longrightarrow> delete_push E self push_iden w
          = ((case r of Inl x \<Rightarrow> Inl (Propagated x) | Inr resp \<Rightarrow> Inr PNone),
             w\<lparr>net := n, sent := sent w @
               [\<lparr>url = PStr (PUSH_URL @ ''/'' @ push_iden), http_method = ''DELETE'', headers = None,
                 params = None,
                 data = None,
                 files = None, skip_auth = None\<rparr>]\<rparr>))
   \<and> (auth_send_request E (auth self)
         \<lparr>url = PStr (CONTACTS_URL @ ''/'' @ contact_iden), http_method = ''DELETE'', headers = None,
          params = None,
          data = None,
          files = None, skip_auth = None\<rparr>
         (net w) Map.empty = (r, n, ss)
      \<longrightarrow> delete_contact E self contact_iden w
          = ((case r of Inl x \<Rightarrow> Inl (Propagated x) | Inr resp \<Rightarrow> Inr PNone),
             w\<lparr>net := n, sent := sent w @
               [\<lparr>url = PStr (CONTACTS_URL @ ''/'' @ contact_iden), http_method = ''DELETE'', headers = None,
                 params = None,
                 data = None,
                 files = None, skip_auth = None\<rparr>]\<rparr>))
   \<and> (auth_send_request E (auth self)
         \<lparr>url = PStr DEVICE_URL, http_method = ''GET'', headers = None,
          params = None,
          data = None,
          files = None, skip_auth = None\<rparr>
         (net w) Map.empty = (r, n, ss)
      \<longrightarrow> devices E self w
          = ((case r of Inl x \<Rightarrow> Inl (Propagated x) | Inr resp \<Rightarrow> subscript resp ''devices''),
             w\<lparr>net := n, sent := sent w @
               [\<lparr>url = PStr DEVICE_URL, http_method = ''GET'', headers = None,
                 params = None,
                 data = None,
                 files = None, skip_auth = None\<rparr>]\<rparr>))
   \<and> (auth_send_request E (auth self)
         \<lparr>url = PStr DEVICE_URL, http_method = ''POST'', headers = None,
          params = None,
          data = Some (PDict [''type'' \<mapsto> device_type, ''nickname'' \<mapsto> name]),
          files = None, skip_auth = None\<rparr>
         (net w) Map.empty = (r, n, ss)
      \<longrightarrow> create_device E self name device_type w
          = ((case r of Inl x \<Rightarrow> Inl (Propagated x) | Inr resp \<Rightarrow> Inr resp),
             w\<lparr>net := n, sent := sent w @
               [\<lparr>url = PStr DEVICE_URL, http_method = ''POST'', headers = None,
                 params = None,
                 data = Some (PDict [''type'' \<mapsto> device_type, ''nickname'' \<mapsto> name]),
                 files = None, skip_auth = None\<rparr>]\<rparr>))
   \<and> (kwargs ''self'' = None \<and> kwargs ''device_iden'' = None
      \<and> auth_send_request E (auth self)
         \<lparr>url = PStr (DEVICE_URL @ ''/'' @ device_iden), http_method = ''POST'', headers = None,
          params = None,
          data = Some (PDict kwargs),
          files = None, skip_auth = None\<rparr>
         (net w) Map.empty = (r, n, ss)
      \<longrightarrow> update_device E self device_iden kwargs w
          = ((case r of Inl x \<Rightarrow> Inl (Propagated x) | Inr resp \<Rightarrow> Inr resp),
             w\<lparr>net := n, sent := sent w @
               [\<lparr>url = PStr (DEVICE_URL @ ''/'' @ device_iden), http_method = ''POST'', headers = None,
                 params = None,
                 data = Some (PDict kwargs),
                 files = None, skip_auth = None\<rparr>]\<rparr>))
   \<and> (kwargs ''self'' \<noteq> None \<or> kwargs ''device_iden'' \<noteq> None
      \<longrightarrow> update_device E self device_iden kwargs w = (Inl TypeError, w))
   \<and> (kwargs ''self'' = None \<and> kwargs ''push_type'' = None
      \<and> auth_send_request E (auth self)
         \<lparr>url = PStr PUSH_URL, http_method = ''POST'', headers = None,
          params = None,
          data = Some (PDict (kwargs(''type'' \<mapsto> push_type))),
          files = None, skip_auth = None\<rparr>
         (net w) Map.empty = (r, n, ss)
      \<longrightarrow> push E self push_type kwargs w
          = ((case r of Inl x \<Rightarrow> Inl (Propagated x) | Inr resp \<Rightarrow> Inr resp),
             w\<lparr>net := n, sent := sent w @
               [\<lparr>url = PStr PUSH_URL, http_method = ''POST'', headers = None,
                 params = None,
                 data = Some (PDict (kwargs(''type'' \<mapsto> push_type))),
                 files = None, skip_auth = None\<rparr>]\<rparr>))
   \<and> (kwargs ''self'' \<noteq> None \<or> kwargs ''push_type'' \<noteq> None
      \<longrightarrow> push E self push_type kwargs w = (Inl TypeError, w))
   \<and> (auth_send_request E (auth self)
         \<lparr>url = PStr PUSH_URL, http_method = ''GET'', headers = None,
          params = Some [''modified_after'' \<mapsto> modified_timestamp],
          data = None,
          files = None, skip_auth = None\<rparr>
         (net w) Map.empty = (r, n, ss)
      \<longrightarrow> push_history E self modified_timestamp w
          = ((case r of Inl x \<Rightarrow> Inl (Propagated x) | Inr resp \<Rightarrow> subscript resp ''pushes''),
             w\<lparr>net := n, sent := sent w @
               [\<lparr>url = PStr PUSH_URL, http_method = ''GET'', headers = None,
                 params = Some [''modified_after'' \<mapsto> modified_timestamp],
                 data = None,
                 files = None, skip_auth = None\<rparr>]\<rparr>))
   \<and> (auth_send_request E (auth self)
         \<lparr>url = PStr (PUSH_URL @ ''/'' @ push_iden), http_method = ''POST'', headers = None,
          params = None,
          data = Some (PDict [''dismissed'' \<mapsto> PStr ''true'']),
          files = None, skip_auth = None\<rparr>
         (net w) Map.empty = (r, n, ss)
      \<longrightarrow> dismiss_push E self push_iden w
          = ((case r of Inl x \<Rightarrow> Inl (Propagated x) | Inr resp \<Rightarrow> Inr resp),
             w\<lparr>net := n, sent := sent w @
               [\<lparr>url = PStr (PUSH_URL @ ''/'' @ push_iden), http_method = ''POST'', headers = None,
                 params = None,
                 data = Some (PDict [''dismissed'' \<mapsto> PStr ''true'']),
                 files = None, skip_auth = None\<rparr>]\<rparr>))
   \<and> (auth_send_request E (auth self)
         \<lparr>url = PStr CONTACTS_URL, http_method = ''GET'', headers = None,
          params = None,
          data = None,
          files = None, skip_auth = None\<rparr>
         (net w) Map.empty = (r, n, ss)
      \<longrightarrow> contacts E self w
          = ((case r of Inl x \<Rightarrow> Inl (Propagated x) | Inr resp \<Rightarrow> Inr resp),
             w\<lparr>net := n, sent := sent w @
               [\<lparr>url = PStr CONTACTS_URL, http_method = ''GET'', headers = None,
                 params = None,
                 data = None,
                 files = None, skip_auth = None\<rparr>]\<rparr>))
   \<and> (auth_send_request E (auth self)
         \<lparr>url = PStr CONTACTS_URL, http_method = ''POST'', headers = None,
          params = None,
          data = Some (PDict [''name'' \<mapsto> name, ''email'' \<mapsto> email]),
          files = None, skip_auth = None\<rparr>
         (net w) Map.empty = (r, n, ss)
      \<longrightarrow> create_contact E self name email w
          = ((case r of Inl x \<Rightarrow> Inl (Propagated x) | Inr resp \<Rightarrow> Inr resp),
             w\<lparr>net := n, sent := sent w @
               [\<lparr>url = PStr CONTACTS_URL, http_method = ''POST'', headers = None,
                 params = None,
                 data = Some (PDict [''name'' \<mapsto> name, ''email'' \<mapsto> email]),
                 files = None, skip_auth = None\<rparr>]\<rparr>))
   \<and> (kwargs ''self'' = None \<and> kwargs ''contact_iden'' = None
      \<and> auth_send_request E (auth self)
         \<lparr>url = PStr (CONTACTS_URL @ ''/'' @ contact_iden), http_method = ''POST'', headers = None,
          params = None,
          data = Some (PDict kwargs),
          files = None, skip_auth = None\<rparr>
         (net w) Map.empty = (r, n, ss)
      \<longrightarrow> update_contact E self contact_iden kwargs w
          = ((case r of Inl x \<Rightarrow> Inl (Propagated x) | Inr resp \<Rightarrow> Inr resp),
             w\<lparr>net := n, sent := sent w @
               [\<lparr>url = PStr (CONTACTS_URL @ ''/'' @ contact_iden), http_method = ''POST'', headers = None,
                 params = None,
                 data = Some (PDict kwargs),
                 files = None, skip_auth = None\<rparr>]\<rparr>))
   \<and> (kwargs ''self'' \<noteq> None \<or> kwargs ''contact_iden'' \<noteq> None
      \<longrightarrow> update_contact E self contact_iden kwargs w = (Inl TypeError, w))
   \<and> (auth_send_request E (auth self)
         \<lparr>url = PStr ME_URL, http_method = ''GET'', headers = None,
          params = None,
          data = None,
          files = None, skip_auth = None\<rparr>
         (net w) Map.empty = (r, n, ss)
      \<longrightarrow> me E self w
          = ((case r of Inl x \<Rightarrow> Inl (Propagated x) | Inr resp \<Rightarrow> Inr resp),
             w\<lparr>net := n, sent := sent w @
               [\<lparr>url = PStr ME_URL, http_method = ''GET'', headers = None,
                 params = None,
                 data = None,
                 files = None, skip_auth = None\<rparr>]\<rparr>))
   \<and> (kwargs ''self'' = None
      \<and> auth_send_request E (auth self)
         \<lparr>url = PStr ME_URL, http_method = ''POST'', headers = Some [''content-type'' \<mapsto> PStr ''application/json''],
          params = None,
          data = Some (PStr (json_dumps E kwargs)),
          files = None, skip_auth = None\<rparr>
         (net w) Map.empty = (r, n, ss)
      \<longrightarrow> update_me E self kwargs w
          = ((case r of Inl x \<Rightarrow> Inl (Propagated x) | Inr resp \<Rightarrow> Inr resp),
             w\<lparr>net := n, sent := sent w @
               [\<lparr>url = PStr ME_URL, http_method = ''POST'', headers = Some [''content-type'' \<mapsto> PStr ''application/json''],
                 params = None,
                 data = Some (PStr (json_dumps E kwargs)),
                 files = None, skip_auth = None\<rparr>]\<rparr>))
   \<and> (kwargs ''self'' \<noteq> None
      \<longrightarrow> update_me E self kwargs w = (Inl TypeError, w))
   \<and> (\<forall>v w'. upload_file E self inp filename file_type w = (Inr v, w')
      \<longrightarrow> (\<exists>file_handle w1 name n ss.
             open_inputfile E inp w = (Inr file_handle, w1)
           \<and> resolve_name w1 filename file_handle = Inr name
           \<and> auth_send_request E (auth self)
                 \<lparr>url = PStr UPLOAD_URL, http_method = ''POST'', headers = None,
                  params = None,
                  data = Some (PDict [''file_name'' \<mapsto> PStr name,
                                      ''file_type'' \<mapsto> resolve_mime_type E file_type name]),
                  files = None, skip_auth = None\<rparr>
                 (net w1) Map.empty = (Inr v, n, ss)))"
proof -
  have up: "\<forall>v w'. upload_file E self inp filename file_type w = (Inr v, w')
      \<longrightarrow> (\<exists>file_handle w1 name n ss.
             open_inputfile E inp w = (Inr file_handle, w1)
           \<and> resolve_name w1 filename file_handle = Inr name
           \<and> auth_send_request E (auth self)
                 \<lparr>url = PStr UPLOAD_URL, http_method = ''POST'', headers = None,
                  params = None,
                  data = Some (PDict [''file_name'' \<mapsto> PStr name,
                                      ''file_type'' \<mapsto> resolve_mime_type E file_type name]),
                  files = None, skip_auth = None\<rparr>
                 (net w1) Map.empty = (Inr v, n, ss))"
  proof (intro allI impI)
    fix v w'
    assume "upload_file E self inp filename file_type w = (Inr v, w')"
    from upload_file_success [OF this]
    obtain file_handle w1 name w2 where
      o: "open_inputfile E inp w = (Inr file_handle, w1)" and
      m: "resolve_name w1 filename file_handle = Inr name" and
      a: "send_request E (auth self)
          (upload_request name (resolve_mime_type E file_type name)) w1 = (Inr v, w2)"
      by blast
    from send_request_no_files_result [OF a files_upload_request]
    obtain n ss where "auth_send_request E (auth self)
        (upload_request name (resolve_mime_type E file_type name)) (net w1) Map.empty
        = (Inr v, n, ss)"
      by blast
    then have "auth_send_request E (auth self)
                 \<lparr>url = PStr UPLOAD_URL, http_method = ''POST'', headers = None,
                  params = None,
                  data = Some (PDict [''file_name'' \<mapsto> PStr name,
                                      ''file_type'' \<mapsto> resolve_mime_type E file_type name]),
                  files = None, skip_auth = None\<rparr>
                 (net w1) Map.empty = (Inr v, n, ss)"
      by (simp add: upload_request_def call_args_def)
    with o m show "\<exists>file_handle w1 name n ss.
             open_inputfile E inp w = (Inr file_handle, w1)
           \<and> resolve_name w1 filename file_handle = Inr name
           \<and> auth_send_request E (auth self)
                 \<lparr>url = PStr UPLOAD_URL, http_method = ''POST'', headers = None,
                  params = None,
                  data = Some (PDict [''file_name'' \<mapsto> PStr name,
                                      ''file_type'' \<mapsto> resolve_mime_type E file_type name]),
                  files = None, skip_auth = None\<rparr>
                 (net w1) Map.empty = (Inr v, n, ss)"
      by blast
  qed
  show ?thesis
    apply (intro conjI)
    subgoal by (simp add: delete_device_def thin_no_files call_args_def)
    subgoal by (simp add: delete_push_def thin_no_files call_args_def)
    subgoal by (simp add: delete_contact_def thin_no_files call_args_def)
    subgoal by (simp add: devices_def thin_no_files call_args_def)
    subgoal by (simp add: create_device_def thin_no_files call_args_def)
    subgoal by (simp add: update_device_def thin_no_files call_args_def)
    subgoal by (auto simp: update_device_def)
    subgoal by (simp add: push_def thin_no_files call_args_def)
    subgoal by (auto simp: push_def)
    subgoal by (simp add: push_history_def thin_no_files call_args_def)
    subgoal by (simp add: dismiss_push_def thin_no_files call_args_def)
    subgoal by (simp add: contacts_def thin_no_files call_args_def)
    subgoal by (simp add: create_contact_def thin_no_files call_args_def)
    subgoal by (simp add: update_contact_def thin_no_files call_args_def)
    subgoal by (auto simp: update_contact_def)
    subgoal by (simp add: me_def thin_no_files call_args_def)
    subgoal by (simp add: update_me_def thin_no_files call_args_def)
    subgoal by (auto simp: update_me_def)
    subgoal by (rule up)
    done
qed

text \<open>
  Every method once on the concrete installation, whose service answers these requests
  with the listing and the upload request with the ticket; the three deletions against
  the service that rejects every request; and the four keyword-argument methods with a
  keyword named \<^verbatim>\<open>self\<close>.
\<close>

theorem delete_methods_return_none_witness:
  "delete_device example_env example_client ''d1'' example_world
     = (Inr PNone,
        example_world\<lparr>net := 1, sent :=
          [\<lparr>url = PStr (DEVICE_URL @ ''/'' @ ''d1''), http_method = ''DELETE'', headers = None,
            params = None,
            data = None,
            files = None, skip_auth = None\<rparr>]\<rparr>)
   \<and> delete_push example_env example_client ''p1'' example_world
     = (Inr PNone,
        example_world\<lparr>net := 1, sent :=
          [\<lparr>url = PStr (PUSH_URL @ ''/'' @ ''p1''), http_method = ''DELETE'', headers = None,
            params = None,
            data = None,
            files = None, skip_auth = None\<rparr>]\<rparr>)
   \<and> delete_contact example_env example_client ''c1'' example_world
     = (Inr PNone,
        example_world\<lparr>net := 1, sent :=
          [\<lparr>url = PStr (CONTACTS_URL @ ''/'' @ ''c1''), http_method = ''DELETE'', headers = None,
            params = None,
            data = None,
            files = None, skip_auth = None\<rparr>]\<rparr>)
   \<and> devices example_env example_client example_world
     = (Inr (PList [PStr ''phone'']),
        example_world\<lparr>net := 1, sent :=
          [\<lparr>url = PStr DEVICE_URL, http_method = ''GET'', headers = None,
            params = None,
            data = None,
            files = None, skip_auth = None\<rparr>]\<rparr>)
   \<and> create_device example_env example_client (PStr ''n'') (PStr ''stream'') example_world
     = (Inr example_listing,
        example_world\<lparr>net := 1, sent :=
          [\<lparr>url = PStr DEVICE_URL, http_method = ''POST'', headers = None,
            params = None,
            data = Some (PDict [''type'' \<mapsto> PStr ''stream'', ''nickname'' \<mapsto> PStr ''n'']),
            files = None, skip_auth = None\<rparr>]\<rparr>)
   \<and> update_device example_env example_client ''d1'' [''nickname'' \<mapsto> PStr ''n''] example_world
     = (Inr example_listing,
        example_world\<lparr>net := 1, sent :=
          [\<lparr>url = PStr (DEVICE_URL @ ''/'' @ ''d1''), http_method = ''POST'', headers = None,
            params = None,
            data = Some (PDict [''nickname'' \<mapsto> PStr ''n'']),
            files = None, skip_auth = None\<rparr>]\<rparr>)
   \<and> push example_env example_client (PStr ''note'') [''nickname'' \<mapsto> PStr ''n''] example_world
     = (Inr example_listing,
        example_world\<lparr>net := 1, sent :=
          [\<lparr>url = PStr PUSH_URL, http_method = ''POST'', headers = None,
            params = None,
            data = Some (PDict ([''nickname'' \<mapsto> PStr ''n''](''type'' \<mapsto> PStr ''note''))),
            files = None, skip_auth = None\<rparr>]\<rparr>)
   \<and> push_history example_env example_client (PInt 0) example_world
     = (Inr (PList []),
        example_world\<lparr>net := 1, sent :=
          [\<lparr>url = PStr PUSH_URL, http_method = ''GET'', headers = None,
            params = Some [''modified_after'' \<mapsto> PInt 0],
            data = None,
            files = None, skip_auth = None\<rparr>]\<rparr>)
   \<and> dismiss_push example_env example_client ''p1'' example_world
     = (Inr example_listing,
        example_world\<lparr>net := 1, sent :=
          [\<lparr>url = PStr (PUSH_URL @ ''/'' @ ''p1''), http_method = ''POST'', headers = None,
            params = None,
            data = Some (PDict [''dismissed'' \<mapsto> PStr ''true'']),
            files = None, skip_auth = None\<rparr>]\<rparr>)
   \<and> contacts example_env example_client example_world
     = (Inr example_listing,
        example_world\<lparr>net := 1, sent :=
          [\<lparr>url = PStr CONTACTS_URL, http_method = ''GET'', headers = None,
            params = None,
            data = None,
            files = None, skip_auth = None\<rparr>]\<rparr>)
   \<and> create_contact example_env example_client (PStr ''n'') (PStr ''e'') example_world
     = (Inr example_listing,
        example_world\<lparr>net := 1, sent :=
          [\<lparr>url = PStr CONTACTS_URL, http_method = ''POST'', headers = None,
            params = None,
            data = Some (PDict [''name'' \<mapsto> PStr ''n'', ''email'' \<mapsto> PStr ''e'']),
            files = None, skip_auth = None\<rparr>]\<rparr>)
   \<and> update_contact example_env example_client ''c1'' [''nickname'' \<mapsto> PStr ''n''] example_world
     = (Inr example_listing,
        example_world\<lparr>net := 1, sent :=
          [\<lparr>url = PStr (CONTACTS_URL @ ''/'' @ ''c1''), http_method = ''POST'', headers = None,
            params = None,
            data = Some (PDict [''nickname'' \<mapsto> PStr ''n'']),
            files = None, skip_auth = None\<rparr>]\<rparr>)
   \<and> me example_env example_client example_world
     = (Inr example_listing,
        example_world\<lparr>net := 1, sent :=
          [\<lparr>url = PStr ME_URL, http_method = ''GET'', headers = None,
            params = None,
            data = None,
            files = None, skip_auth = None\<rparr>]\<rparr>)
   \<and> update_me example_env example_client [''nickname'' \<mapsto> PStr ''n''] example_world
     = (Inr example_listing,
        example_world\<lparr>net := 1, sent :=
          [\<lparr>url = PStr ME_URL, http_method = ''POST'', headers = Some [''content-type'' \<mapsto> PStr ''application/json''],
            params = None,
            data = Some (PStr (json_dumps example_env [''nickname'' \<mapsto> PStr ''n''])),
            files = None, skip_auth = None\<rparr>]\<rparr>)
   \<and> delete_device rejecting_env example_client ''d1'' example_world
     = (Inl (Propagated ''RequestError''),
        example_world\<lparr>net := 1, sent :=
          [\<lparr>url = PStr (DEVICE_URL @ ''/'' @ ''d1''), http_method = ''DELETE'', headers = None,
            params = None,
            data = None,
            files = None, skip_auth = None\<rparr>]\<rparr>)
   \<and> delete_push rejecting_env example_client ''p1'' example_world
     = (Inl (Propagated ''RequestError''),
        example_world\<lparr>net := 1, sent :=
          [\<lparr>url = PStr (PUSH_URL @ ''/'' @ ''p1''), http_method = ''DELETE'', headers = None,
            params = None,
            data = None,
            files = None, skip_auth = None\<rparr>]\<rparr>)
   \<and> delete_contact rejecting_env example_client ''c1'' example_world
     = (Inl (Propagated ''RequestError''),
        example_world\<lparr>net := 1, sent :=
          [\<lparr>url = PStr (CONTACTS_URL @ ''/'' @ ''c1''), http_method = ''DELETE'', headers = None,
            params = None,
            data = None,
            files = None, skip_auth = None\<rparr>]\<rparr>)
   \<and> update_device example_env example_client ''d1'' [''self'' \<mapsto> PInt 0] example_world
     = (Inl TypeError, example_world)
   \<and> push example_env example_client (PStr ''note'') [''self'' \<mapsto> PInt 0] example_world
     = (Inl TypeError, example_world)
   \<and> update_contact example_env example_client ''c1'' [''self'' \<mapsto> PInt 0] example_world
     = (Inl TypeError, example_world)
   \<and> update_me example_env example_client [''self'' \<mapsto> PInt 0] example_world
     = (Inl TypeError, example_world)
   \<and> upload_file example_env example_client (Path ''/tmp/a.txt'') None None example_world
     = (Inr example_ticket,
        snd (upload_file example_env example_client (Path ''/tmp/a.txt'') None None
               example_world))
   \<and> (\<exists>file_handle w1 name n ss.
         open_inputfile example_env (Path ''/tmp/a.txt'') example_world = (Inr file_handle, w1)
       \<and> resolve_name w1 None file_handle = Inr name
       \<and> auth_send_request example_env (auth example_client)
           \<lparr>url = PStr UPLOAD_URL, http_method = ''POST'', headers = None,
            params = None,
            data = Some (PDict [''file_name'' \<mapsto> PStr name,
                                ''file_type'' \<mapsto> resolve_mime_type example_env None name]),
            files = None, skip_auth = None\<rparr>
           (net w1) Map.empty = (Inr example_ticket, n, ss))"
proof -
  have l1: "subscript example_listing ''devices'' = Inr (PList [PStr ''phone''])"
    by (simp add: subscript_def dict_getitem_def example_listing_def)
  have l2: "subscript example_listing ''pushes'' = Inr (PList [])"
    by (simp add: subscript_def dict_getitem_def example_listing_def)
  note t1 = delete_methods_return_none [where E = example_env and self = example_client
      and w = example_world and device_iden = "''d1''" and push_iden = "''p1''"
      and contact_iden = "''c1''" and name = "PStr ''n''" and device_type = "PStr ''stream''"
      and kwargs = "[''nickname'' \<mapsto> PStr ''n'']" and push_type = "PStr ''note''"
      and modified_timestamp = "PInt 0" and email = "PStr ''e''"
      and inp = "Path ''/tmp/a.txt''" and filename = None and file_type = None
      and r = "Inr example_listing" and n = "Suc 0" and ss = Map.empty]
  note t2 = delete_methods_return_none [where E = rejecting_env and self = example_client
      and w = example_world and device_iden = "''d1''" and push_iden = "''p1''"
      and contact_iden = "''c1''" and name = "PStr ''n''" and device_type = "PStr ''stream''"
      and kwargs = "[''nickname'' \<mapsto> PStr ''n'']" and push_type = "PStr ''note''"
      and modified_timestamp = "PInt 0" and email = "PStr ''e''"
      and inp = "Path ''/tmp/a.txt''" and filename = None and file_type = None
      and r = "Inl ''RequestError''" and n = "Suc 0" and ss = Map.empty]
  note t3 = delete_methods_return_none [where E = example_env and self = example_client
      and w = example_world and device_iden = "''d1''" and push_iden = "''p1''"
      and contact_iden = "''c1''" and name = "PStr ''n''" and device_type = "PStr ''stream''"
      and kwargs = "[''self'' \<mapsto> PInt 0]" and push_type = "PStr ''note''"
      and modified_timestamp = "PInt 0" and email = "PStr ''e''"
      and inp = "Path ''/tmp/a.txt''" and filename = None and file_type = None
      and r = "Inr example_listing" and n = "Suc 0" and ss = Map.empty]
  from t1 [THEN conjunct1] have a_delete_device: "delete_device example_env example_client ''d1'' example_world
     = (Inr PNone,
        example_world\<lparr>net := 1, sent :=
          [\<lparr>url = PStr (DEVICE_URL @ ''/'' @ ''d1''), http_method = ''DELETE'', headers = None,
            params = None,
            data = None,
            files = None, skip_auth = None\<rparr>]\<rparr>)"
    by (simp add: example_raw example_sent_empty url_defs l1 l2)
  from t1 [THEN conjunct2, THEN conjunct1] have a_delete_push: "delete_push example_env example_client ''p1'' example_world
     = (Inr PNone,
        example_world\<lparr>net := 1, sent :=
          [\<lparr>url = PStr (PUSH_URL @ ''/'' @ ''p1''), http_method = ''DELETE'', headers = None,
            params = None,
            data = None,
            files = None, skip_auth = None\<rparr>]\<rparr>)"
    by (simp add: example_raw example_sent_empty url_defs l1 l2)
  from t1 [THEN conjunct2, THEN conjunct2, THEN conjunct1] have a_delete_contact: "delete_contact example_env example_client ''c1'' example_world
     = (Inr PNone,
        example_world\<lparr>net := 1, sent :=
          [\<lparr>url = PStr (CONTACTS_URL @ ''/'' @ ''c1''), http_method = ''DELETE'', headers = None,
            params = None,
            data = None,
            files = None, skip_auth = None\<rparr>]\<rparr>)"
    by (simp add: example_raw example_sent_empty url_defs l1 l2)
  from t1 [THEN conjunct2, THEN conjunct2, THEN conjunct2, THEN conjunct1] have a_devices: "devices example_env example_client example_world
     = (Inr (PList [PStr ''phone'']),
        example_world\<lparr>net := 1, sent :=
          [\<lparr>url = PStr DEVICE_URL, http_method = ''GET'', headers = None,
            params = None,
            data = None,
            files = None, skip_auth = None\<rparr>]\<rparr>)"
    by (simp add: example_raw example_sent_empty url_defs l1 l2)
  from t1 [THEN conjunct2, THEN conjunct2, THEN conjunct2, THEN conjunct2, THEN conjunct1] have a_create_device: "create_device example_env example_client (PStr ''n'') (PStr ''stream'') example_world
     = (Inr example_listing,
        example_world\<lparr>net := 1, sent :=
          [\<lparr>url = PStr DEVICE_URL, http_method = ''POST'', headers = None,
            params = None,
            data = Some (PDict [''type'' \<mapsto> PStr ''stream'', ''nickname'' \<mapsto> PStr ''n'']),
            files = None, skip_auth = None\<rparr>]\<rparr>)"
    by (simp add: example_raw example_sent_empty url_defs l1 l2)
  from t1 [THEN conjunct2, THEN conjunct2, THEN conjunct2, THEN conjunct2, THEN conjunct2, THEN conjunct1] have a_update_device: "update_device example_env example_client ''d1'' [''nickname'' \<mapsto> PStr ''n''] example_world
     = (Inr example_listing,
        example_world\<lparr>net := 1, sent :=
          [\<lparr>url = PStr (DEVICE_URL @ ''/'' @ ''d1''), http_method = ''POST'', headers = None,
            params = None,
            data = Some (PDict [''nickname'' \<mapsto> PStr ''n'']),
            files = None, skip_auth = None\<rparr>]\<rparr>)"
    by (simp add: example_raw example_sent_empty url_defs l1 l2)
  from t1 [THEN conjunct2, THEN conjunct2, THEN conjunct2, THEN conjunct2, THEN conjunct2, THEN conjunct2, THEN conjunct2, THEN conjunct1] have a_push: "push example_env example_client (PStr ''note'') [''nickname'' \<mapsto> PStr ''n''] example_world
     = (Inr example_listing,
        example_world\<lparr>net := 1, sent :=
          [\<lparr>url = PStr PUSH_URL, http_method = ''POST'', headers = None,
            params = None,
            data = Some (PDict ([''nickname'' \<mapsto> PStr ''n''](''type'' \<mapsto> PStr ''note''))),
            files = None, skip_auth = None\<rparr>]\<rparr>)"
    by (simp add: example_raw example_sent_empty url_defs l1 l2)
  from t1 [THEN conjunct2, THEN conjunct2, THEN conjunct2, THEN conjunct2, THEN conjunct2, THEN conjunct2, THEN conjunct2, THEN conjunct2, THEN conjunct2, THEN conjunct1] have a_push_history: "push_history example_env example_client (PInt 0) example_world
     = (Inr (PList []),
        example_world\<lparr>net := 1, sent :=
          [\<lparr>url = PStr PUSH_URL, http_method = ''GET'', headers = None,
            params = Some [''modified_after'' \<mapsto> PInt 0],
            data = None,
            files = None, skip_auth = None\<rparr>]\<rparr>)"
    by (simp add: example_raw example_sent_empty url_defs l1 l2)
  from t1 [THEN conjunct2, THEN conjunct2, THEN conjunct2, THEN conjunct2, THEN conjunct2, THEN conjunct2, THEN conjunct2, THEN conjunct2, THEN conjunct2, THEN conjunct2, THEN conjunct1] have a_dismiss_push: "dismiss_push example_env example_client ''p1'' example_world
     = (Inr example_listing,
        example_world\<lparr>net := 1, sent :=
          [\<lparr>url = PStr (PUSH_URL @ ''/'' @ ''p1''), http_method = ''POST'', headers = None,
            params = None,
            data = Some (PDict [''dismissed'' \<mapsto> PStr ''true'']),
            files = None, skip_auth = None\<rparr>]\<rparr>)"
    by (simp add: example_raw example_sent_empty url_defs l1 l2)
  from t1 [THEN conjunct2, THEN conjunct2, THEN conjunct2, THEN conjunct2, THEN conjunct2, THEN conjunct2, THEN conjunct2, THEN conjunct2, THEN conjunct2, THEN conjunct2, THEN conjunct2, THEN conjunct1] have a_contacts: "contacts example_env example_client example_world
     = (Inr example_listing,
        example_world\<lparr>net := 1, sent :=
          [\<lparr>url = PStr CONTACTS_URL, http_method = ''GET'', headers = None,
            params = None,
            data = None,
            files = None, skip_auth = None\<rparr>]\<rparr>)"
    by (simp add: example_raw example_sent_empty url_defs l1 l2)
  from t1 [THEN conjunct2, THEN conjunct2, THEN conjunct2, THEN conjunct2, THEN conjunct2, THEN conjunct2, THEN conjunct2, THEN conjunct2, THEN conjunct2, THEN conjunct2, THEN conjunct2, THEN conjunct2, THEN conjunct1] have a_create_contact: "create_contact example_env example_client (PStr ''n'') (PStr ''e'') example_world
     = (Inr example_listing,
        example_world\<lparr>net := 1, sent :=
          [\<lparr>url = PStr CONTACTS_URL, http_method = ''POST'', headers = None,
            params = None,
            data = Some (PDict [''name'' \<mapsto> PStr ''n'', ''email'' \<mapsto> PStr ''e'']),
            files = None, skip_auth = None\<rparr>]\<rparr>)"
    by (simp add: example_raw example_sent_empty url_defs l1 l2)
  from t1 [THEN conjunct2, THEN conjunct2, THEN conjunct2, THEN conjunct2, THEN conjunct2, THEN conjunct2, THEN conjunct2, THEN conjunct2, THEN conjunct2, THEN conjunct2, THEN conjunct2, THEN conjunct2, THEN conjunct2, THEN conjunct1] have a_update_contact: "update_contact example_env example_client ''c1'' [''nickname'' \<mapsto> PStr ''n''] example_world
     = (Inr example_listing,
        example_world\<lparr>net := 1, sent :=
          [\<lparr>url = PStr (CONTACTS_URL @ ''/'' @ ''c1''), http_method = ''POST'', headers = None,
            params = None,
            data = Some (PDict [''nickname'' \<mapsto> PStr ''n'']),
            files = None, skip_auth = None\<rparr>]\<rparr>)"
    by (simp add: example_raw example_sent_empty url_defs l1 l2)
  from t1 [THEN conjunct2, THEN conjunct2, THEN conjunct2, THEN conjunct2, THEN conjunct2, THEN conjunct2, THEN conjunct2, THEN conjunct2, THEN conjunct2, THEN conjunct2, THEN conjunct2, THEN conjunct2, THEN conjunct2, THEN conjunct2, THEN conjunct2, THEN conjunct1] have a_me: "me example_env example_client example_world
     = (Inr example_listing,
        example_world\<lparr>net := 1, sent :=
          [\<lparr>url = PStr ME_URL, http_method = ''GET'', headers = None,
            params = None,
            data = None,
            files = None, skip_auth = None\<rparr>]\<rparr>)"
    by (simp add: example_raw example_sent_empty url_defs l1 l2)
  from t1 [THEN conjunct2, THEN conjunct2, THEN conjunct2, THEN conjunct2, THEN conjunct2, THEN conjunct2, THEN conjunct2, THEN conjunct2, THEN conjunct2, THEN conjunct2, THEN conjunct2, THEN conjunct2, THEN conjunct2, THEN conjunct2, THEN conjunct2, THEN conjunct2, THEN conjunct1] have a_update_me: "update_me example_env example_client [''nickname'' \<mapsto> PStr ''n''] example_world
     = (Inr example_listing,
        example_world\<lparr>net := 1, sent :=
          [\<lparr>url = PStr ME_URL, http_method = ''POST'', headers = Some [''content-type'' \<mapsto> PStr ''application/json''],
            params = None,
            data = Some (PStr (json_dumps example_env [''nickname'' \<mapsto> PStr ''n''])),
            files = None, skip_auth = None\<rparr>]\<rparr>)"
    by (simp add: example_raw example_sent_empty url_defs l1 l2)
  from t2 [THEN conjunct1] have b_delete_device: "delete_device rejecting_env example_client ''d1'' example_world
     = (Inl (Propagated ''RequestError''),
        example_world\<lparr>net := 1, sent :=
          [\<lparr>url = PStr (DEVICE_URL @ ''/'' @ ''d1''), http_method = ''DELETE'', headers = None,
            params = None,
            data = None,
            files = None, skip_auth = None\<rparr>]\<rparr>)"
    by (simp add: rejecting_raw example_sent_empty)
  from t2 [THEN conjunct2, THEN conjunct1] have b_delete_push: "delete_push rejecting_env example_client ''p1'' example_world
     = (Inl (Propagated ''RequestError''),
        example_world\<lparr>net := 1, sent :=
          [\<lparr>url = PStr (PUSH_URL @ ''/'' @ ''p1''), http_method = ''DELETE'', headers = None,
            params = None,
            data = None,
            files = None, skip_auth = None\<rparr>]\<rparr>)"
    by (simp add: rejecting_raw example_sent_empty)
  from t2 [THEN conjunct2, THEN conjunct2, THEN conjunct1] have b_delete_contact: "delete_contact rejecting_env example_client ''c1'' example_world
     = (Inl (Propagated ''RequestError''),
        example_world\<lparr>net := 1, sent :=
          [\<lparr>url = PStr (CONTACTS_URL @ ''/'' @ ''c1''), http_method = ''DELETE'', headers = None,
            params = None,
            data = None,
            files = None, skip_auth = None\<rparr>]\<rparr>)"
    by (simp add: rejecting_raw example_sent_empty)
  from t3 [THEN conjunct2, THEN conjunct2, THEN conjunct2, THEN conjunct2, THEN conjunct2, THEN conjunct2, THEN conjunct1] have c_update_device: "update_device example_env example_client ''d1'' [''self'' \<mapsto> PInt 0] example_world
     = (Inl TypeError, example_world)"
    by simp
  from t3 [THEN conjunct2, THEN conjunct2, THEN conjunct2, THEN conjunct2, THEN conjunct2, THEN conjunct2, THEN conjunct2, THEN conjunct2, THEN conjunct1] have c_push: "push example_env example_client (PStr ''note'') [''self'' \<mapsto> PInt 0] example_world
     = (Inl TypeError, example_world)"
    by simp
  from t3 [THEN conjunct2, THEN conjunct2, THEN conjunct2, THEN conjunct2, THEN conjunct2, THEN conjunct2, THEN conjunct2, THEN conjunct2, THEN conjunct2, THEN conjunct2, THEN conjunct2, THEN conjunct2, THEN conjunct2, THEN conjunct2, THEN conjunct1] have c_update_contact: "update_contact example_env example_client ''c1'' [''self'' \<mapsto> PInt 0] example_world
     = (Inl TypeError, example_world)"
    by simp
  from t3 [THEN conjunct2, THEN conjunct2, THEN conjunct2, THEN conjunct2, THEN conjunct2, THEN conjunct2, THEN conjunct2, THEN conjunct2, THEN conjunct2, THEN conjunct2, THEN conjunct2, THEN conjunct2, THEN conjunct2, THEN conjunct2, THEN conjunct2, THEN conjunct2, THEN conjunct2, THEN conjunct1] have c_update_me: "update_me example_env example_client [''self'' \<mapsto> PInt 0] example_world
     = (Inl TypeError, example_world)"
    by simp
  have run: "upload_file example_env example_client (Path ''/tmp/a.txt'') None None example_world
     = (Inr example_ticket,
        snd (upload_file example_env example_client (Path ''/tmp/a.txt'') None None
               example_world))"
    using example_upload_result by (simp add: prod_eq_iff)
  from t1 [THEN conjunct2, THEN conjunct2, THEN conjunct2, THEN conjunct2, THEN conjunct2, THEN conjunct2, THEN conjunct2, THEN conjunct2, THEN conjunct2, THEN conjunct2, THEN conjunct2, THEN conjunct2, THEN conjunct2, THEN conjunct2, THEN conjunct2, THEN conjunct2, THEN conjunct2, THEN conjunct2] have "\<forall>v w'. upload_file example_env example_client (Path ''/tmp/a.txt'') None None
        example_world = (Inr v, w')
      \<longrightarrow> (\<exists>file_handle w1 name n ss.
         open_inputfile example_env (Path ''/tmp/a.txt'') example_world = (Inr file_handle, w1)
       \<and> resolve_name w1 None file_handle = Inr name
       \<and> auth_send_request example_env (auth example_client)
           \<lparr>url = PStr UPLOAD_URL, http_method = ''POST'', headers = None,
            params = None,
            data = Some (PDict [''file_name'' \<mapsto> PStr name,
                                ''file_type'' \<mapsto> resolve_mime_type example_env None name]),
            files = None, skip_auth = None\<rparr>
           (net w1) Map.empty = (Inr v, n, ss))"
    by blast
  with run have up: "\<exists>file_handle w1 name n ss.
         open_inputfile example_env (Path ''/tmp/a.txt'') example_world = (Inr file_handle, w1)
       \<and> resolve_name w1 None file_handle = Inr name
       \<and> auth_send_request example_env (auth example_client)
           \<lparr>url = PStr UPLOAD_URL, http_method = ''POST'', headers = None,
            params = None,
            data = Some (PDict [''file_name'' \<mapsto> PStr name,
                                ''file_type'' \<mapsto> resolve_mime_type example_env None name]),
            files = None, skip_auth = None\<rparr>
           (net w1) Map.empty = (Inr example_ticket, n, ss)"
    by blast
  show ?thesis
    by (intro conjI) (fact a_delete_device a_delete_push a_delete_contact a_devices a_create_device a_update_device a_push a_push_history a_dismiss_push a_contacts a_create_contact a_update_contact a_me a_update_me b_delete_device b_delete_push b_delete_contact c_update_device c_push c_update_contact c_update_me run up)+
qed

end
